theory Spec2Isabelle
  imports Main
begin

section \<open>The world the scripts run in\<close>

text \<open>
  Both scripts are single-shot processes: they read files, call the Pillow image
  library, write files and print lines. The model threads a \<open>world\<close> (the
  files on disk and the lines printed so far) through every step, and returns
  either a value or the exception that was raised. An exception that nothing
  catches ends the process; the world it leaves behind is kept.
\<close>

type_synonym path = string
type_synonym bytes = "nat list"

datatype exn =
    ImportError
  | SystemExit nat
  | FileNotFoundError path
  | UnidentifiedImageError
  | EOFError
  | IndexError
  | ValueError string
  | OSError string

record world =
  files :: "path \<rightharpoonup> bytes"
  stdout :: "string list"

definition and_then ::
  "(world \<Rightarrow> (exn + 'a) \<times> world) \<Rightarrow> ('a \<Rightarrow> world \<Rightarrow> (exn + 'b) \<times> world) \<Rightarrow>
   world \<Rightarrow> (exn + 'b) \<times> world" where
  "and_then m f w = (case m w of (Inl e, w') \<Rightarrow> (Inl e, w') | (Inr x, w') \<Rightarrow> f x w')"

definition lift_result :: "exn + 'a \<Rightarrow> world \<Rightarrow> (exn + 'a) \<times> world" where
  "lift_result r w = (r, w)"

definition print_line :: "string \<Rightarrow> world \<Rightarrow> (exn + unit) \<times> world" where
  "print_line s w = (Inr (), w\<lparr>stdout := stdout w @ [s]\<rparr>)"

definition path_exists :: "path \<Rightarrow> world \<Rightarrow> bool" where
  "path_exists p w = (files w p \<noteq> None)"

definition getsize :: "path \<Rightarrow> world \<Rightarrow> (exn + nat) \<times> world" where
  "getsize p w =
     (case files w p of
        None \<Rightarrow> (Inl (FileNotFoundError p), w)
      | Some b \<Rightarrow> (Inr (length b), w))"

text \<open>
  The exit status of the interpreter: 0 when the module body runs to its end, the
  argument of \<open>exit\<close> for a \<open>SystemExit\<close>, and 1 for any other
  uncaught exception.
\<close>

fun exit_status :: "exn + unit \<Rightarrow> nat" where
  "exit_status (Inr _) = 0"
| "exit_status (Inl (SystemExit n)) = n"
| "exit_status (Inl _) = 1"

section \<open>Text formatting\<close>

definition digit_char :: "nat \<Rightarrow> char" where
  "digit_char d = char_of (48 + d)"

function str_nat :: "nat \<Rightarrow> string" where
  "str_nat n = (if n < 10 then [digit_char n] else str_nat (n div 10) @ [digit_char (n mod 10)])"
  by pat_completeness auto
termination
  by (relation "measure id") auto

declare str_nat.simps [simp del]

text \<open>\<open>str_size\<close> is \<open>str\<close> of a pair of ints, as in \<open>f"{img.size}"\<close>.\<close>

definition str_size :: "nat \<times> nat \<Rightarrow> string" where
  "str_size s = ''('' @ str_nat (fst s) @ '', '' @ str_nat (snd s) @ '')''"

text \<open>
  \<open>fmt_1f_kb n\<close> is \<open>f"{n / 1024:.1f}"\<close> for an integer byte count \<open>n\<close>
  (a size, or a difference of two sizes). Division by 1024 and the difference of two
  such quotients are exact in binary floating point for sizes below \<open>2^53\<close>, and
  \<open>.1f\<close> rounds the exact value to the nearest tenth, ties to even; a negative
  value keeps its sign also when it rounds to zero.
\<close>

definition round_half_even :: "nat \<Rightarrow> nat \<Rightarrow> nat" where
  "round_half_even p q =
     (let t = p div q; r = p mod q in
      if 2 * r < q then t
      else if q < 2 * r then t + 1
      else if even t then t else t + 1)"

definition fmt_1f_kb :: "int \<Rightarrow> string" where
  "fmt_1f_kb n =
     (let t = round_half_even (nat \<bar>n\<bar> * 10) 1024 in
      (if n < 0 then ''-'' else '''') @ str_nat (t div 10) @ ''.'' @ str_nat (t mod 10))"

definition endswith :: "string \<Rightarrow> string \<Rightarrow> bool" where
  "endswith s suf = (length suf \<le> length s \<and> drop (length s - length suf) s = suf)"

section \<open>The Pillow image library\<close>

text \<open>
  An \<open>image\<close> is an in-memory raster (\<open>PIL.Image.Image\<close>): its mode, its
  size (width, height) and its pixel data. An \<open>image_file\<close> is what
  \<open>Image.open\<close> returns: a sequence of at least one frame of one size,
  positioned at a frame (\<open>tell\<close>). The codecs and the pixel arithmetic are
  parameters (\<open>pil\<close>): the scripts are verified for every decoder, filter and
  encoder. What the scripts rely on is written out: a resize returns an image of the
  requested size and raises \<open>ValueError\<close> for an empty target, \<open>seek\<close>
  past the last frame raises \<open>EOFError\<close> and leaves the position unchanged, and
  a save that raises writes nothing.
\<close>

datatype resampling = NEAREST | BILINEAR | BICUBIC | LANCZOS

record image =
  mode :: string
  isize :: "nat \<times> nat"
  pixels :: "nat list"

record frame =
  fpixels :: "nat list"
  fduration :: "nat option"

record image_file =
  fmode :: string
  fsize :: "nat \<times> nat"
  frame0 :: frame
  frames_after :: "frame list"
  pos :: nat

record pil =
  decode :: "bytes \<Rightarrow> exn + image_file"
  resample :: "resampling \<Rightarrow> image \<Rightarrow> nat \<times> nat \<Rightarrow> nat list"
  convert_pixels :: "string \<Rightarrow> image \<Rightarrow> nat list"
  band_pixels :: "nat \<Rightarrow> image \<Rightarrow> nat list"
  paste_pixels :: "image \<Rightarrow> image \<Rightarrow> image \<Rightarrow> nat list"
  encode_png :: "bool \<Rightarrow> image \<Rightarrow> exn + bytes"
  encode_webp :: "nat \<Rightarrow> nat \<Rightarrow> image \<Rightarrow> exn + bytes"
  encode_gif :: "nat \<Rightarrow> nat \<Rightarrow> bool \<Rightarrow> image list \<Rightarrow> exn + bytes"

definition image_open :: "pil \<Rightarrow> path \<Rightarrow> world \<Rightarrow> (exn + image_file) \<times> world" where
  "image_open lib p w =
     (case files w p of
        None \<Rightarrow> (Inl (FileNotFoundError p), w)
      | Some b \<Rightarrow>
          (case decode lib b of
             Inl e \<Rightarrow> (Inl e, w)
           | Inr f \<Rightarrow> (Inr (f\<lparr>pos := 0\<rparr>), w)))"

definition n_frames :: "image_file \<Rightarrow> nat" where
  "n_frames f = Suc (length (frames_after f))"

definition tell :: "image_file \<Rightarrow> nat" where
  "tell f = pos f"

definition seek :: "image_file \<Rightarrow> nat \<Rightarrow> exn + image_file" where
  "seek f k = (if k < n_frames f then Inr (f\<lparr>pos := k\<rparr>) else Inl EOFError)"

definition current_frame :: "image_file \<Rightarrow> frame" where
  "current_frame f =
     (if pos f = 0 \<or> length (frames_after f) < pos f then frame0 f
      else frames_after f ! (pos f - 1))"

text \<open>The image an \<open>image_file\<close> stands for in \<open>copy\<close>, \<open>resize\<close> and \<open>save\<close>.\<close>

definition image_of :: "image_file \<Rightarrow> image" where
  "image_of f = \<lparr>mode = fmode f, isize = fsize f, pixels = fpixels (current_frame f)\<rparr>"

definition info_duration :: "image_file \<Rightarrow> nat \<Rightarrow> nat" where
  "info_duration f dflt = (case fduration (current_frame f) of None \<Rightarrow> dflt | Some d \<Rightarrow> d)"

definition resize :: "pil \<Rightarrow> image \<Rightarrow> nat \<times> nat \<Rightarrow> resampling \<Rightarrow> exn + image" where
  "resize lib img sz flt =
     (if fst sz = 0 \<or> snd sz = 0 then Inl (ValueError ''height and width must be > 0'')
      else Inr \<lparr>mode = mode img, isize = sz, pixels = resample lib flt img sz\<rparr>)"

definition image_new :: "string \<Rightarrow> nat \<times> nat \<Rightarrow> nat list \<Rightarrow> image" where
  "image_new m sz color = \<lparr>mode = m, isize = sz, pixels = concat (replicate (fst sz * snd sz) color)\<rparr>"

definition split_band :: "pil \<Rightarrow> image \<Rightarrow> nat \<Rightarrow> image" where
  "split_band lib img k = \<lparr>mode = ''L'', isize = isize img, pixels = band_pixels lib k img\<rparr>"

definition paste :: "pil \<Rightarrow> image \<Rightarrow> image \<Rightarrow> image \<Rightarrow> image" where
  "paste lib dest src msk = dest\<lparr>pixels := paste_pixels lib dest src msk\<rparr>"

definition convert :: "pil \<Rightarrow> image \<Rightarrow> string \<Rightarrow> image" where
  "convert lib img m = \<lparr>mode = m, isize = isize img, pixels = convert_pixels lib m img\<rparr>"

definition write_file :: "path \<Rightarrow> exn + bytes \<Rightarrow> world \<Rightarrow> (exn + unit) \<times> world" where
  "write_file p r w =
     (case r of
        Inl e \<Rightarrow> (Inl e, w)
      | Inr b \<Rightarrow> (Inr (), w\<lparr>files := (files w)(p \<mapsto> b)\<rparr>))"

definition save_png :: "pil \<Rightarrow> image \<Rightarrow> path \<Rightarrow> bool \<Rightarrow> world \<Rightarrow> (exn + unit) \<times> world" where
  "save_png lib img p optimize = write_file p (encode_png lib optimize img)"

definition save_webp :: "pil \<Rightarrow> image \<Rightarrow> path \<Rightarrow> nat \<Rightarrow> nat \<Rightarrow> world \<Rightarrow> (exn + unit) \<times> world" where
  "save_webp lib img p quality meth = write_file p (encode_webp lib quality meth img)"

definition save_gif ::
  "pil \<Rightarrow> image \<Rightarrow> path \<Rightarrow> image list \<Rightarrow> nat \<Rightarrow> nat \<Rightarrow> bool \<Rightarrow> world \<Rightarrow> (exn + unit) \<times> world" where
  "save_gif lib img p append_images duration loop optimize =
     write_file p (encode_gif lib duration loop optimize (img # append_images))"

section \<open>optimize\_images.py\<close>

text \<open>The dict \<open>sizes\<close>, in insertion order (the order \<open>items()\<close> yields).\<close>

definition sizes :: "(path \<times> (nat \<times> nat)) list" where
  "sizes =
     [(''profile-200.png'', (200, 200)),
      (''profile-400.png'', (400, 400)),
      (''profile-200.webp'', (200, 200)),
      (''profile-400.webp'', (400, 400))]"

text \<open>Lines 41 to 47: the RGB copy on a white background.\<close>

definition flatten_rgb :: "pil \<Rightarrow> image \<Rightarrow> image" where
  "flatten_rgb lib img =
     (if mode img = ''RGBA'' then
        (let background = image_new ''RGB'' (isize img) [255, 255, 255];
             background = paste lib background img (split_band lib img 3)
         in background)
      else convert lib img ''RGB'')"

text \<open>Lines 56 to 68: the loop over \<open>sizes.items()\<close>.\<close>

fun save_sizes :: "pil \<Rightarrow> image \<Rightarrow> (path \<times> (nat \<times> nat)) list \<Rightarrow> world \<Rightarrow> (exn + unit) \<times> world" where
  "save_sizes lib img [] = lift_result (Inr ())"
| "save_sizes lib img ((filename, sz) # rest) =
     and_then (lift_result (resize lib img sz LANCZOS)) (\<lambda>resized.
     and_then (if endswith filename ''.webp''
               then save_webp lib resized filename 85 6
               else save_png lib resized filename True) (\<lambda>_.
     and_then (getsize filename) (\<lambda>file_size.
     and_then (print_line (''Created: '' @ filename @ '' - '' @ fmt_1f_kb (int file_size) @ ''KB'')) (\<lambda>_.
     save_sizes lib img rest))))"

definition closing_lines :: "string list" where
  "closing_lines =
     [''\<newline>'' @ [CHR 0xE2, CHR 0x9C, CHR 0x85] @ '' Optimization complete!'',
      ''\<newline>Next steps:'',
      ''1. Replace profile.png with profile-optimized.png'',
      ''2. Update HTML to use responsive images with <picture> element'']"

fun print_lines :: "string list \<Rightarrow> world \<Rightarrow> (exn + unit) \<times> world" where
  "print_lines [] = lift_result (Inr ())"
| "print_lines (s # ss) = and_then (print_line s) (\<lambda>_. print_lines ss)"

text \<open>Lines 49 to 79: everything after the RGBA branch.\<close>

definition optimize_rest :: "pil \<Rightarrow> path \<Rightarrow> image_file \<Rightarrow> world \<Rightarrow> (exn + unit) \<times> world" where
  "optimize_rest lib input_path img =
     and_then (save_sizes lib (image_of img) sizes) (\<lambda>_.
     and_then (save_png lib (image_of img) ''profile-optimized.png'' True) (\<lambda>_.
     and_then (getsize ''profile-optimized.png'') (\<lambda>optimized_size.
     and_then (print_line (''\<newline>Optimized original: profile-optimized.png - ''
                 @ fmt_1f_kb (int optimized_size) @ ''KB'')) (\<lambda>_.
     and_then (getsize input_path) (\<lambda>original_size.
     and_then (print_line (''Savings: ''
                 @ fmt_1f_kb (int original_size - int optimized_size) @ ''KB'')) (\<lambda>_.
     print_lines closing_lines))))))"

definition optimize_profile_image :: "pil \<Rightarrow> world \<Rightarrow> (exn + unit) \<times> world" where
  "optimize_profile_image lib w =
     (let input_path = ''profile.png'' in
      if \<not> path_exists input_path w
      then print_line (''Error: '' @ input_path @ '' not found'') w
      else
        and_then (image_open lib input_path) (\<lambda>img.
        and_then (getsize input_path) (\<lambda>original_size.
        and_then (print_line (''Original: '' @ str_size (fsize img) @ '', ''
                    @ fmt_1f_kb (int original_size) @ ''KB'')) (\<lambda>_.
        let img_rgb = flatten_rgb lib (image_of img) in
        optimize_rest lib input_path img))) w)"

text \<open>The same function with lines 40 to 47 (the RGBA branch) deleted.\<close>

definition optimize_profile_image_without_rgb :: "pil \<Rightarrow> world \<Rightarrow> (exn + unit) \<times> world" where
  "optimize_profile_image_without_rgb lib w =
     (let input_path = ''profile.png'' in
      if \<not> path_exists input_path w
      then print_line (''Error: '' @ input_path @ '' not found'') w
      else
        and_then (image_open lib input_path) (\<lambda>img.
        and_then (getsize input_path) (\<lambda>original_size.
        and_then (print_line (''Original: '' @ str_size (fsize img) @ '', ''
                    @ fmt_1f_kb (int original_size) @ ''KB'')) (\<lambda>_.
        optimize_rest lib input_path img))) w)"

text \<open>
  Loading the module: the guarded import of Pillow (lines 13 to 18), the definition
  of the function, and the call under the \<open>__main__\<close> guard (lines 81 and 82).
  \<open>name\<close> is the module's \<open>__name__\<close>.
\<close>

definition load_optimize_images :: "bool \<Rightarrow> pil \<Rightarrow> string \<Rightarrow> world \<Rightarrow> (exn + unit) \<times> world" where
  "load_optimize_images pillow_installed lib name =
     (if \<not> pillow_installed then
        and_then (print_line ''Error: Pillow not installed'') (\<lambda>_.
        and_then (print_line ''Install with: pip install Pillow'') (\<lambda>_.
        lift_result (Inl (SystemExit 1))))
      else if name = ''__main__'' then optimize_profile_image lib
      else lift_result (Inr ()))"

section \<open>resize\_gif.py\<close>

text \<open>
  Lines 11 to 19: the loop inside \<open>try\<close>. An \<open>EOFError\<close> raised anywhere
  in the loop body leaves the loop with what was collected before it; any other
  exception leaves the script.
\<close>

function extract_frames ::
  "pil \<Rightarrow> nat \<Rightarrow> image_file \<Rightarrow> image list \<Rightarrow> nat \<Rightarrow> exn + (image_file \<times> image list \<times> nat)" where
  "extract_frames lib max_frames img frames frame_count =
     (if frame_count < max_frames then
        (case resize lib (image_of img) (fst (fsize img) div 2, snd (fsize img) div 2) LANCZOS of
           Inl e \<Rightarrow> (if e = EOFError then Inr (img, frames, frame_count) else Inl e)
         | Inr resized \<Rightarrow>
             (case seek img (tell img + 1) of
                Inl e \<Rightarrow> (if e = EOFError then Inr (img, frames @ [resized], frame_count) else Inl e)
              | Inr img' \<Rightarrow> extract_frames lib max_frames img' (frames @ [resized]) (frame_count + 1)))
      else Inr (img, frames, frame_count))"
  by pat_completeness auto
termination
  by (relation "measure (\<lambda>(lib, max_frames, img, frames, frame_count). max_frames - frame_count)") auto

declare extract_frames.simps [simp del]

definition resize_gif :: "pil \<Rightarrow> world \<Rightarrow> (exn + unit) \<times> world" where
  "resize_gif lib =
     and_then (image_open lib ''assets/svg/pathway.gif'') (\<lambda>img.
     and_then (lift_result (extract_frames lib 30 img [] 0)) (\<lambda>(img, frames, frame_count).
     and_then (case frames of
                 [] \<Rightarrow> lift_result (Inl IndexError)
               | frame_0 # appended \<Rightarrow>
                   save_gif lib frame_0 ''assets/svg/pathway_temp.gif'' appended
                     (info_duration img 100) 0 True) (\<lambda>_.
     print_line (''Created temporary GIF with '' @ str_nat (length frames) @ '' frames''))))"

text \<open>Loading the module: the import of Pillow (line 1), then the script.\<close>

definition load_resize_gif :: "bool \<Rightarrow> pil \<Rightarrow> string \<Rightarrow> world \<Rightarrow> (exn + unit) \<times> world" where
  "load_resize_gif pillow_installed lib name =
     (if \<not> pillow_installed then lift_result (Inl ImportError)
      else resize_gif lib)"

section \<open>What a run writes and prints\<close>

text \<open>
  The outputs of \<open>optimize_profile_image\<close> as data: for each entry of
  \<open>sizes\<close> the file name and what resizing and encoding return, then the
  re-encoded original. \<open>commit\<close> writes such a list in order and stops at the
  first output that failed; \<open>first_error\<close> is that failure;
  \<open>created_lines\<close> are the lines printed for the outputs before it.
\<close>

type_synonym planned = "path \<times> (exn + bytes)"

definition encode_for :: "pil \<Rightarrow> path \<Rightarrow> image \<Rightarrow> exn + bytes" where
  "encode_for lib filename img =
     (if endswith filename ''.webp'' then encode_webp lib 85 6 img else encode_png lib True img)"

definition plan_one :: "pil \<Rightarrow> image \<Rightarrow> path \<times> (nat \<times> nat) \<Rightarrow> planned" where
  "plan_one lib img entry =
     (fst entry,
      case resize lib img (snd entry) LANCZOS of
        Inl e \<Rightarrow> Inl e
      | Inr resized \<Rightarrow> encode_for lib (fst entry) resized)"

definition planned_outputs :: "pil \<Rightarrow> image \<Rightarrow> planned list" where
  "planned_outputs lib img =
     map (plan_one lib img) sizes @ [(''profile-optimized.png'', encode_png lib True img)]"

fun commit :: "planned list \<Rightarrow> (path \<rightharpoonup> bytes) \<Rightarrow> (path \<rightharpoonup> bytes)" where
  "commit [] m = m"
| "commit ((p, Inl e) # rest) m = m"
| "commit ((p, Inr b) # rest) m = commit rest (m(p \<mapsto> b))"

fun first_error :: "planned list \<Rightarrow> exn option" where
  "first_error [] = None"
| "first_error ((p, Inl e) # rest) = Some e"
| "first_error ((p, Inr b) # rest) = first_error rest"

fun created_lines :: "planned list \<Rightarrow> string list" where
  "created_lines [] = []"
| "created_lines ((p, Inl e) # rest) = []"
| "created_lines ((p, Inr b) # rest) =
     (''Created: '' @ p @ '' - '' @ fmt_1f_kb (int (length b)) @ ''KB'') # created_lines rest"

definition outcome :: "exn option \<Rightarrow> exn + unit" where
  "outcome r = (case r of None \<Rightarrow> Inr () | Some e \<Rightarrow> Inl e)"

text \<open>The lines of a run of \<open>optimize_profile_image\<close> whose input opened.\<close>

definition report :: "pil \<Rightarrow> image_file \<Rightarrow> nat \<Rightarrow> string list" where
  "report lib img original_size =
     (''Original: '' @ str_size (fsize img) @ '', '' @ fmt_1f_kb (int original_size) @ ''KB'')
     # created_lines (map (plan_one lib (image_of img)) sizes)
     @ (if first_error (map (plan_one lib (image_of img)) sizes) = None then
          (case encode_png lib True (image_of img) of
             Inl e \<Rightarrow> []
           | Inr b \<Rightarrow>
               [''\<newline>Optimized original: profile-optimized.png - ''
                  @ fmt_1f_kb (int (length b)) @ ''KB'',
                ''Savings: '' @ fmt_1f_kb (int original_size - int (length b)) @ ''KB'']
               @ closing_lines)
        else [])"

text \<open>
  A world that holds nothing but one input file, and a world laid over another:
  the files of the second win, its lines come after.
\<close>

definition isolated :: "path \<Rightarrow> bytes option \<Rightarrow> world" where
  "isolated p c = \<lparr>files = (\<lambda>q. if q = p then c else None), stdout = []\<rparr>"

definition over :: "world \<Rightarrow> world \<Rightarrow> world" where
  "over w d = \<lparr>files = files w ++ files d, stdout = stdout w @ stdout d\<rparr>"

text \<open>The frame of \<open>resize_gif\<close> at position \<open>i\<close>, resized to half size.\<close>

definition half_frame :: "pil \<Rightarrow> image_file \<Rightarrow> nat \<Rightarrow> image" where
  "half_frame lib img i =
     \<lparr>mode = fmode img,
      isize = (fst (fsize img) div 2, snd (fsize img) div 2),
      pixels = resample lib LANCZOS (image_of (img\<lparr>pos := i\<rparr>))
                 (fst (fsize img) div 2, snd (fsize img) div 2)\<rparr>"

text \<open>
  A library whose GIF codec keeps every frame: what the encoder writes for a list of
  images, none of them empty, opens again with as many frames as the list has. The
  number of frames a saved GIF contains is the number it opens with.
\<close>

definition gif_keeps_frames :: "pil \<Rightarrow> bool" where
  "gif_keeps_frames lib =
     (\<forall>duration loop optimize imgs out.
        imgs \<noteq> [] \<longrightarrow>
        (\<forall>img\<in>set imgs. fst (isize img) \<noteq> 0 \<and> snd (isize img) \<noteq> 0) \<longrightarrow>
        encode_gif lib duration loop optimize imgs = Inr out \<longrightarrow>
        (\<exists>g. decode lib out = Inr g \<and> n_frames g = length imgs))"

section \<open>Frontmatter extraction\<close>

text \<open>
  Modelled from the spec: the Frontmatter Extractor of the markdown converter
  (section 4.1 of the specification). The converter is not among the sources, so
  the definitions below follow the specification's words: a document starts with a
  line that is exactly \<open>---\<close>, the block runs to the next line that is exactly
  \<open>---\<close>, each line of the block is split on its first colon, and the body is the
  text after the closing line. The JSON parser used for a bracketed \<open>tags\<close> value is
  a parameter.
\<close>

datatype fm_value = Plain string | StringList "string list"

definition newline :: char where
  "newline = CHR 0x0A"

definition is_space :: "char \<Rightarrow> bool" where
  "is_space c = (c \<in> {CHR '' '', CHR 0x09, CHR 0x0A, CHR 0x0B, CHR 0x0C, CHR 0x0D})"

definition trim :: "string \<Rightarrow> string" where
  \<comment> \<open>Modelled from the spec: "trimmed".\<close>
  "trim s = rev (dropWhile is_space (rev (dropWhile is_space s)))"

definition strip_quotes :: "string \<Rightarrow> string" where
  \<comment> \<open>Modelled from the spec: "a single layer of surrounding matching quotes stripped".\<close>
  "strip_quotes v =
     (if 2 \<le> length v \<and> hd v = last v \<and> (hd v = CHR 0x22 \<or> hd v = CHR 0x27)
      then butlast (tl v) else v)"

fun split_on :: "char \<Rightarrow> string \<Rightarrow> string list" where
  "split_on sep [] = [[]]"
| "split_on sep (c # cs) =
     (if c = sep then [] # split_on sep cs
      else (case split_on sep cs of
              [] \<Rightarrow> [[c]]
            | l # ls \<Rightarrow> (c # l) # ls))"

fun join_lines :: "string list \<Rightarrow> string" where
  "join_lines [] = []"
| "join_lines [l] = l"
| "join_lines (l # l' # ls) = l @ newline # join_lines (l' # ls)"

definition strip_brackets :: "string \<Rightarrow> string" where
  \<comment> \<open>Modelled from the spec: "stripping the outer brackets".\<close>
  "strip_brackets v =
     (let v1 = (if v \<noteq> [] \<and> hd v = CHR ''['' then tl v else v) in
      if v1 \<noteq> [] \<and> last v1 = CHR '']'' then butlast v1 else v1)"

definition parse_tags :: "(string \<Rightarrow> string list option) \<Rightarrow> string \<Rightarrow> string list" where
  \<comment> \<open>Modelled from the spec: "attempt to parse it as a JSON array; on failure, fall back to
      stripping the outer brackets and splitting on \<open>,\<close>, trimming each element".\<close>
  "parse_tags json_array v =
     (case json_array v of
        Some tags \<Rightarrow> tags
      | None \<Rightarrow> map trim (split_on CHR '','' (strip_brackets v)))"

definition parse_line :: "(string \<Rightarrow> string list option) \<Rightarrow> string \<Rightarrow> (string \<times> fm_value) option" where
  \<comment> \<open>Modelled from the spec: "Parsing rule per line".\<close>
  "parse_line json_array line =
     (if CHR '':'' \<in> set line then
        (let key = trim (takeWhile (\<lambda>c. c \<noteq> CHR '':'') line);
             val = strip_quotes (trim (tl (dropWhile (\<lambda>c. c \<noteq> CHR '':'') line)))
         in Some (key,
              if key = ''tags'' \<and> val \<noteq> [] \<and> hd val = CHR ''[''
              then StringList (parse_tags json_array val) else Plain val))
      else None)"

fun parse_block ::
  "(string \<Rightarrow> string list option) \<Rightarrow> string list \<Rightarrow> (string \<rightharpoonup> fm_value) \<Rightarrow> (string \<rightharpoonup> fm_value)" where
  \<comment> \<open>Modelled from the spec: "Duplicate keys: last occurrence wins".\<close>
  "parse_block json_array [] m = m"
| "parse_block json_array (line # rest) m =
     parse_block json_array rest
       (case parse_line json_array line of
          None \<Rightarrow> m
        | Some (key, val) \<Rightarrow> m(key \<mapsto> val))"

definition extract_frontmatter ::
  "(string \<Rightarrow> string list option) \<Rightarrow> string \<Rightarrow> (string \<rightharpoonup> fm_value) option \<times> string" where
  \<comment> \<open>Modelled from the spec: the Frontmatter Extractor's contract and output.\<close>
  "extract_frontmatter json_array content =
     (case split_on newline content of
        [] \<Rightarrow> (None, content)
      | opening # rest \<Rightarrow>
          if opening = ''---'' \<and> ''---'' \<in> set rest then
            (Some (parse_block json_array (takeWhile (\<lambda>l. l \<noteq> ''---'') rest) Map.empty),
             join_lines (tl (dropWhile (\<lambda>l. l \<noteq> ''---'') rest)))
          else (None, content))"

text \<open>
  A frontmatter block built from key and value texts, one \<open>key:value\<close> line each.
  An entry is valid when its key is trimmed and holds no colon, and neither part
  holds a line break.
\<close>

definition entry_line :: "string \<times> string \<Rightarrow> string" where
  "entry_line e = fst e @ CHR '':'' # snd e"

definition frontmatter_block :: "(string \<times> string) list \<Rightarrow> string" where
  "frontmatter_block entries =
     ''---'' @ newline # concat (map (\<lambda>e. entry_line e @ [newline]) entries) @ ''---'' @ [newline]"

definition valid_entry :: "string \<times> string \<Rightarrow> bool" where
  "valid_entry e =
     (CHR '':'' \<notin> set (fst e) \<and> newline \<notin> set (fst e) \<and> newline \<notin> set (snd e)
      \<and> trim (fst e) = fst e)"

section \<open>A small image library and small worlds, for evaluation\<close>

text \<open>
  A toy codec: a file is its width, its height, the number of frames after the
  first, and the pixel data of every frame. A file shorter than its header or with an
  empty size does not open.
\<close>

definition toy_decode :: "bytes \<Rightarrow> exn + image_file" where
  "toy_decode b =
     (case b of
        w # h # n # px \<Rightarrow>
          if w = 0 \<or> h = 0 then Inl UnidentifiedImageError
          else Inr \<lparr>fmode = ''P'', fsize = (w, h),
                    frame0 = \<lparr>fpixels = px, fduration = None\<rparr>,
                    frames_after = replicate n \<lparr>fpixels = px, fduration = None\<rparr>,
                    pos = 0\<rparr>
      | _ \<Rightarrow> Inl UnidentifiedImageError)"

definition toy_encode :: "image list \<Rightarrow> bytes" where
  "toy_encode imgs =
     (case imgs of
        [] \<Rightarrow> []
      | img # more_imgs \<Rightarrow> fst (isize img) # snd (isize img) # length more_imgs # pixels img)"

definition toy_pil :: pil where
  "toy_pil =
     \<lparr>decode = toy_decode,
      resample = (\<lambda>flt img sz. take 1 (pixels img)),
      convert_pixels = (\<lambda>m img. pixels img),
      band_pixels = (\<lambda>k img. pixels img),
      paste_pixels = (\<lambda>dest src msk. pixels src),
      encode_png = (\<lambda>optimize img. Inr (toy_encode [img])),
      encode_webp = (\<lambda>quality meth img. Inr (toy_encode [img])),
      encode_gif = (\<lambda>duration loop optimize imgs. Inr (toy_encode imgs))\<rparr>"

text \<open>The same library built without WebP support: every WebP save raises.\<close>

definition toy_pil_without_webp :: pil where
  "toy_pil_without_webp =
     toy_pil\<lparr>encode_webp := (\<lambda>quality meth img. Inl (OSError ''encoder webp not available''))\<rparr>"

text \<open>
  The same library with a GIF encoder that writes a run of identical consecutive
  frames once, as Pillow's GIF writer does when it finds a frame equal to the one
  before it.
\<close>

definition toy_pil_merging :: pil where
  "toy_pil_merging =
     toy_pil\<lparr>encode_gif := (\<lambda>duration loop optimize imgs. Inr (toy_encode (remdups_adj imgs)))\<rparr>"

definition world_of :: "path \<Rightarrow> bytes \<Rightarrow> world" where
  "world_of p b = \<lparr>files = [p \<mapsto> b], stdout = []\<rparr>"

definition no_files :: world where
  "no_files = \<lparr>files = Map.empty, stdout = []\<rparr>"

section \<open>Lemmas on the steps of a run\<close>

lemma save_step:
  "(if endswith filename ''.webp'' then save_webp lib resized filename 85 6
    else save_png lib resized filename True) = write_file filename (encode_for lib filename resized)"
  by (simp add: encode_for_def save_webp_def save_png_def)

lemma save_sizes_char:
  "save_sizes lib img szs w =
     (outcome (first_error (map (plan_one lib img) szs)),
      w\<lparr>files := commit (map (plan_one lib img) szs) (files w),
        stdout := stdout w @ created_lines (map (plan_one lib img) szs)\<rparr>)"
proof (induction szs arbitrary: w)
  case Nil
  show ?case by (simp add: lift_result_def outcome_def)
next
  case (Cons entry szs)
  obtain filename sz where entry: "entry = (filename, sz)" by (cases entry)
  show ?case
  proof (cases "resize lib img sz LANCZOS")
    case (Inl e)
    then show ?thesis
      by (simp add: entry plan_one_def and_then_def lift_result_def outcome_def)
  next
    case (Inr resized)
    note resized = this
    show ?thesis
    proof (cases "encode_for lib filename resized")
      case (Inl e)
      then show ?thesis using resized
        by (simp add: entry plan_one_def and_then_def lift_result_def outcome_def
            save_step write_file_def del: save_sizes.simps(2))
           (simp add: and_then_def lift_result_def save_step write_file_def)
    next
      case (Inr b)
      then show ?thesis using resized
        by (simp add: entry plan_one_def and_then_def lift_result_def
            save_step write_file_def getsize_def print_line_def Cons.IH)
    qed
  qed
qed

lemma commit_append:
  "commit (xs @ ys) m = (if first_error xs = None then commit ys (commit xs m) else commit xs m)"
  by (induction xs arbitrary: m rule: first_error.induct) auto

lemma first_error_append:
  "first_error (xs @ ys) = (case first_error xs of None \<Rightarrow> first_error ys | Some e \<Rightarrow> Some e)"
  by (induction xs rule: first_error.induct) auto

lemma commit_other: "p \<notin> fst ` set xs \<Longrightarrow> commit xs m p = m p"
  by (induction xs arbitrary: m rule: first_error.induct) auto

lemma commit_over: "commit xs (m ++ n) = m ++ commit xs n"
  by (induction xs arbitrary: n rule: first_error.induct)
     (simp_all del: map_add_upd add: map_add_upd [symmetric])

lemma print_lines_char: "print_lines ss w = (Inr (), w\<lparr>stdout := stdout w @ ss\<rparr>)"
  by (induction ss arbitrary: w) (simp_all add: lift_result_def and_then_def print_line_def)

lemma optimize_rest_char:
  assumes "files w ''profile.png'' = Some b"
  shows "optimize_rest lib ''profile.png'' img w =
     (outcome (first_error (planned_outputs lib (image_of img))),
      w\<lparr>files := commit (planned_outputs lib (image_of img)) (files w),
        stdout := stdout w @ tl (report lib img (length b))\<rparr>)"
proof (cases "first_error (map (plan_one lib (image_of img)) sizes)")
  case (Some e)
  then show ?thesis
    by (simp add: optimize_rest_def and_then_def save_sizes_char outcome_def
        planned_outputs_def commit_append first_error_append report_def)
next
  case None
  note ok = this
  have keep: "commit (map (plan_one lib (image_of img)) sizes) (files w) ''profile.png'' = Some b"
    using assms by (subst commit_other) (simp_all add: sizes_def plan_one_def)
  show ?thesis
  proof (cases "encode_png lib True (image_of img)")
    case (Inl e)
    then show ?thesis using ok
      by (simp add: optimize_rest_def and_then_def save_sizes_char outcome_def
          planned_outputs_def commit_append first_error_append report_def
          save_png_def write_file_def)
  next
    case (Inr b5)
    then show ?thesis using ok keep
      by (simp add: optimize_rest_def and_then_def save_sizes_char outcome_def
          planned_outputs_def commit_append first_error_append report_def
          save_png_def write_file_def getsize_def print_line_def print_lines_char)
  qed
qed

lemma optimize_profile_image_char:
  assumes "files w ''profile.png'' = Some b" and "decode lib b = Inr f"
  shows "optimize_profile_image lib w =
     (outcome (first_error (planned_outputs lib (image_of (f\<lparr>pos := 0\<rparr>)))),
      w\<lparr>files := commit (planned_outputs lib (image_of (f\<lparr>pos := 0\<rparr>))) (files w),
        stdout := stdout w @ report lib (f\<lparr>pos := 0\<rparr>) (length b)\<rparr>)"
proof -
  let ?w1 = "w\<lparr>stdout := stdout w @ [hd (report lib (f\<lparr>pos := 0\<rparr>) (length b))]\<rparr>"
  have "files ?w1 ''profile.png'' = Some b" using assms by simp
  from optimize_rest_char [OF this, of lib "f\<lparr>pos := 0\<rparr>"] assms
  show ?thesis
    by (simp add: optimize_profile_image_def path_exists_def and_then_def image_open_def
        getsize_def print_line_def report_def)
qed

lemma half_frame_pos [simp]: "half_frame lib (img\<lparr>pos := k\<rparr>) = half_frame lib img"
  by (rule ext) (simp add: half_frame_def)

lemma resize_half:
  "0 < fst (fsize img) div 2 \<Longrightarrow> 0 < snd (fsize img) div 2 \<Longrightarrow>
   resize lib (image_of img) (fst (fsize img) div 2, snd (fsize img) div 2) LANCZOS
     = Inr (half_frame lib img (pos img))"
  by (simp add: resize_def half_frame_def image_of_def)

lemma upt_first: "[p ..< p + Suc k] = p # [p + 1 ..< p + 1 + k]"
  by (subst upt_rec) (simp del: upt_Suc)

lemma extract_frames_char:
  assumes "pos img < n_frames img" "0 < fst (fsize img) div 2" "0 < snd (fsize img) div 2"
  shows "extract_frames lib m img frames c =
      Inr (img\<lparr>pos := pos img + min (n_frames img - pos img - 1) (m - c)\<rparr>,
           frames @ map (half_frame lib img) [pos img ..< pos img + min (n_frames img - pos img) (m - c)],
           c + min (n_frames img - pos img - 1) (m - c))"
  using assms
proof (induction lib m img frames c rule: extract_frames.induct)
  case (1 lib m img frames c)
  note rs = resize_half [OF "1.prems"(2,3), of lib]
  show ?case
  proof (cases "c < m")
    case False
    then show ?thesis by (simp add: extract_frames.simps [of lib m img frames c])
  next
    case True
    note lt = this
    show ?thesis
    proof (cases "pos img + 1 < n_frames img")
      case False
      with "1.prems"(1) have last: "n_frames img - pos img = 1" by simp
      have "seek img (tell img + 1) = Inl EOFError"
        using False by (simp add: seek_def tell_def)
      then show ?thesis using lt rs last
        by (simp add: extract_frames.simps [of lib m img frames c] min_def)
    next
      case more: True
      let ?img' = "img\<lparr>pos := pos img + 1\<rparr>"
      have sk: "seek img (tell img + 1) = Inr ?img'"
        using more by (simp add: seek_def tell_def)
      have step: "extract_frames lib m img frames c
          = extract_frames lib m ?img' (frames @ [half_frame lib img (pos img)]) (c + 1)"
        using lt rs sk by (simp add: extract_frames.simps [of lib m img frames c])
      have ih: "extract_frames lib m ?img' (frames @ [half_frame lib img (pos img)]) (c + 1) =
          Inr (img\<lparr>pos := pos img + 1 + min (n_frames img - (pos img + 1) - 1) (m - (c + 1))\<rparr>,
           (frames @ [half_frame lib img (pos img)])
             @ map (half_frame lib img) [pos img + 1 ..< pos img + 1 + min (n_frames img - (pos img + 1)) (m - (c + 1))],
           c + 1 + min (n_frames img - (pos img + 1) - 1) (m - (c + 1)))"
        using "1.IH" [OF lt rs sk] more "1.prems" by (simp add: n_frames_def)
      have b: "min (n_frames img - pos img) (m - c)
                 = Suc (min (n_frames img - (pos img + 1)) (m - (c + 1)))"
        using lt more by (auto simp: min_def)
      have b': "min (n_frames img - pos img - 1) (m - c)
                 = Suc (min (n_frames img - (pos img + 1) - 1) (m - (c + 1)))"
        using lt more by (auto simp: min_def)
      have a1: "pos img + 1 + min (n_frames img - (pos img + 1) - 1) (m - (c + 1))
                 = pos img + min (n_frames img - pos img - 1) (m - c)"
        unfolding b' by simp
      have a2: "c + 1 + min (n_frames img - (pos img + 1) - 1) (m - (c + 1))
                 = c + min (n_frames img - pos img - 1) (m - c)"
        unfolding b' by simp
      have a3: "[pos img ..< pos img + min (n_frames img - pos img) (m - c)]
                 = pos img # [pos img + 1 ..< pos img + 1 + min (n_frames img - (pos img + 1)) (m - (c + 1))]"
        unfolding b by (rule upt_first)
      show ?thesis
        unfolding step ih a1 a2 a3 by simp
    qed
  qed
qed

lemma resize_gif_unfold:
  "resize_gif lib w =
     (case files w ''assets/svg/pathway.gif'' of
        None \<Rightarrow> (Inl (FileNotFoundError ''assets/svg/pathway.gif''), w)
      | Some b \<Rightarrow>
         (case decode lib b of
            Inl e \<Rightarrow> (Inl e, w)
          | Inr f \<Rightarrow>
             (case extract_frames lib 30 (f\<lparr>pos := 0\<rparr>) [] 0 of
                Inl e \<Rightarrow> (Inl e, w)
              | Inr (img, frames, c) \<Rightarrow>
                 (case frames of
                    [] \<Rightarrow> (Inl IndexError, w)
                  | fr # rest \<Rightarrow>
                     (case encode_gif lib (info_duration img 100) 0 True frames of
                        Inl e \<Rightarrow> (Inl e, w)
                      | Inr out \<Rightarrow>
                         (Inr (), w\<lparr>files := (files w)(''assets/svg/pathway_temp.gif'' \<mapsto> out),
                                   stdout := stdout w @ [''Created temporary GIF with ''
                                      @ str_nat (length frames) @ '' frames'']\<rparr>))))))"
  by (simp add: resize_gif_def and_then_def image_open_def lift_result_def save_gif_def
      write_file_def print_line_def split: option.splits sum.splits prod.splits list.splits)

lemma split_on_nonempty [simp]: "split_on sep s \<noteq> []"
  by (induction s) (auto split: list.splits)

lemma split_on_line:
  "sep \<notin> set l \<Longrightarrow> split_on sep (l @ sep # rest) = l # split_on sep rest"
  by (induction l) auto

lemma join_lines_Cons: "join_lines ((c # l) # ls) = c # join_lines (l # ls)"
  by (cases ls) auto

lemma join_split [simp]: "join_lines (split_on newline s) = s"
proof (induction s)
  case Nil
  show ?case by simp
next
  case (Cons c s)
  obtain l ls where sp: "split_on newline s = l # ls"
    by (cases "split_on newline s") auto
  show ?case using Cons sp by (auto simp: join_lines_Cons)
qed

lemma split_block:
  "\<forall>e\<in>set es. newline \<notin> set (entry_line e) \<Longrightarrow>
   split_on newline (concat (map (\<lambda>e. entry_line e @ [newline]) es) @ rest)
     = map entry_line es @ split_on newline rest"
  by (induction es) (simp_all add: split_on_line)

lemma takeWhile_until: "\<forall>x\<in>set xs. x \<noteq> d \<Longrightarrow> takeWhile (\<lambda>l. l \<noteq> d) (xs @ d # ys) = xs"
  by (induction xs) auto

lemma dropWhile_until: "\<forall>x\<in>set xs. x \<noteq> d \<Longrightarrow> dropWhile (\<lambda>l. l \<noteq> d) (xs @ d # ys) = d # ys"
  by (induction xs) auto

lemma parse_line_entry:
  "CHR '':'' \<notin> set (fst e) \<Longrightarrow> \<exists>v. parse_line json (entry_line e) = Some (trim (fst e), v)"
proof -
  assume "CHR '':'' \<notin> set (fst e)"
  then have "\<forall>x\<in>set (fst e). x \<noteq> CHR '':''" by auto
  then show ?thesis
    by (simp add: parse_line_def entry_line_def takeWhile_until dropWhile_until Let_def)
qed

lemma dom_parse_block:
  "\<forall>e\<in>set es. CHR '':'' \<notin> set (fst e) \<Longrightarrow>
   dom (parse_block json (map entry_line es) m) = dom m \<union> (\<lambda>e. trim (fst e)) ` set es"
proof (induction es arbitrary: m)
  case Nil
  show ?case by simp
next
  case (Cons e es)
  from Cons.prems obtain v where "parse_line json (entry_line e) = Some (trim (fst e), v)"
    using parse_line_entry [of e json] by auto
  then show ?case using Cons by auto
qed

lemma entry_line_not_delim: "entry_line e \<noteq> ''---''"
proof
  assume "entry_line e = ''---''"
  then have "set (entry_line e) = set ''---''" by simp
  then show False by (auto simp: entry_line_def)
qed

lemma over_isolated: "files (w::world) p = c \<Longrightarrow> over w (isolated p c) = w"
proof -
  assume c: "files w p = c"
  have "files w ++ (\<lambda>q. if q = p then c else None) = files w"
    using c by (auto simp: map_add_def fun_eq_iff split: option.splits)
  then show ?thesis by (simp add: over_def isolated_def)
qed

lemma files_over_isolated: "files (w::world) p = c \<Longrightarrow> files w ++ files (isolated p c) = files w"
  by (auto simp: isolated_def map_add_def fun_eq_iff split: option.splits)

lemma files_isolated_self: "files (isolated p c) p = c"
  by (simp add: isolated_def)

lemma stdout_isolated: "stdout (isolated p c) = []"
  by (simp add: isolated_def)

lemma over_upd:
  "over w (d\<lparr>files := F, stdout := S\<rparr>) = w\<lparr>files := files w ++ F, stdout := stdout w @ S\<rparr>"
  by (cases w) (simp add: over_def)

lemma commit_lookup:
  "first_error outs = None \<Longrightarrow> distinct (map fst outs) \<Longrightarrow> (p, r) \<in> set outs \<Longrightarrow>
   \<exists>out. r = Inr out \<and> commit outs m p = Some out"
proof (induction outs arbitrary: m rule: first_error.induct)
  case 1
  then show ?case by simp
next
  case (2 q e rest)
  then show ?case by simp
next
  case (3 q b rest)
  show ?case
  proof (cases "(p, r) = (q, Inr b)")
    case True
    with "3.prems"(2) have "p \<notin> fst ` set rest" by auto
    then show ?thesis using True by (simp add: commit_other)
  next
    case False
    with "3.prems" have "(p, r) \<in> set rest" "first_error rest = None" "distinct (map fst rest)"
      by auto
    from "3.IH" [OF this(2,3,1)] show ?thesis by simp
  qed
qed

lemma gif_frames:
  assumes "2 \<le> fst (fsize f)" and "2 \<le> snd (fsize f)"
  shows "extract_frames lib 30 (f\<lparr>pos := 0\<rparr>) [] 0 =
     Inr (f\<lparr>pos := min (n_frames f - 1) 30\<rparr>,
          map (half_frame lib f) [0 ..< min (n_frames f) 30],
          min (n_frames f - 1) 30)"
proof -
  have "pos (f\<lparr>pos := 0\<rparr>) < n_frames (f\<lparr>pos := 0\<rparr>)" by (simp add: n_frames_def)
  moreover have "0 < fst (fsize (f\<lparr>pos := 0\<rparr>)) div 2" "0 < snd (fsize (f\<lparr>pos := 0\<rparr>)) div 2"
    using assms by (simp_all add: div_greater_zero_iff)
  ultimately show ?thesis
    using extract_frames_char [of "f\<lparr>pos := 0\<rparr>" lib 30 "[]" 0] by (simp add: n_frames_def)
qed

lemma plan_one_conversions:
  "plan_one (lib\<lparr>convert_pixels := cv, band_pixels := bd, paste_pixels := ps\<rparr>) img = plan_one lib img"
  by (rule ext) (simp add: plan_one_def resize_def encode_for_def)

lemma toy_open_profile:
  "decode toy_pil [4, 4, 0, 7] =
     Inr \<lparr>fmode = ''P'', fsize = (4, 4), frame0 = \<lparr>fpixels = [7], fduration = None\<rparr>,
          frames_after = [], pos = 0\<rparr>"
  by (simp add: toy_pil_def toy_decode_def)

lemma over_stdout:
  "over w (d\<lparr>stdout := S\<rparr>) = w\<lparr>files := files w ++ files d, stdout := stdout w @ S\<rparr>"
  by (cases w) (simp add: over_def)

lemma optimize_frame:
  assumes "files w ''profile.png'' = c"
  shows "optimize_profile_image lib w =
     (fst (optimize_profile_image lib (isolated ''profile.png'' c)),
      over w (snd (optimize_profile_image lib (isolated ''profile.png'' c))))"
proof (cases c)
  case None
  have "files w ++ files (isolated ''profile.png'' None) = files w"
    using assms None by (intro files_over_isolated) simp
  with assms None show ?thesis
    by (simp add: optimize_profile_image_def path_exists_def print_line_def files_isolated_self
        over_stdout stdout_isolated)
next
  case (Some b)
  note some = this
  have iso: "files (isolated ''profile.png'' c) ''profile.png'' = Some b"
    using some by (simp add: files_isolated_self)
  have fw: "files w ''profile.png'' = Some b" using assms some by simp
  show ?thesis
  proof (cases "decode lib b")
    case (Inl e)
    then show ?thesis using fw iso assms
      by (simp add: optimize_profile_image_def path_exists_def and_then_def image_open_def
          over_isolated)
  next
    case (Inr f)
    have "commit (planned_outputs lib (image_of (f\<lparr>pos := 0\<rparr>))) (files w) =
          files w ++ commit (planned_outputs lib (image_of (f\<lparr>pos := 0\<rparr>)))
                      (files (isolated ''profile.png'' c))"
      using commit_over [of _ "files w" "files (isolated ''profile.png'' c)"]
        files_over_isolated [OF assms] by simp
    then show ?thesis
      by (simp add: optimize_profile_image_char [OF fw Inr] optimize_profile_image_char [OF iso Inr]
          over_upd stdout_isolated)
  qed
qed

lemma resize_gif_frame:
  assumes "files v ''assets/svg/pathway.gif'' = d"
  shows "resize_gif lib v =
     (fst (resize_gif lib (isolated ''assets/svg/pathway.gif'' d)),
      over v (snd (resize_gif lib (isolated ''assets/svg/pathway.gif'' d))))"
proof -
  let ?iso = "isolated ''assets/svg/pathway.gif'' d"
  have same: "files ?iso ''assets/svg/pathway.gif'' = files v ''assets/svg/pathway.gif''"
    using assms by (simp add: files_isolated_self)
  note keep = files_over_isolated [OF assms]
  note undo = over_isolated [OF assms]
  have wr: "over v (?iso\<lparr>files := (files ?iso)(p \<mapsto> out), stdout := stdout ?iso @ [s]\<rparr>)
      = v\<lparr>files := (files v)(p \<mapsto> out), stdout := stdout v @ [s]\<rparr>" for p out s
    by (simp add: over_upd stdout_isolated keep)
  show ?thesis
  proof (cases "files v ''assets/svg/pathway.gif''")
    case None
    then show ?thesis using same undo by (simp add: resize_gif_unfold)
  next
    case (Some b)
    note fv = this
    show ?thesis
    proof (cases "decode lib b")
      case (Inl e)
      then show ?thesis using fv same undo by (simp add: resize_gif_unfold)
    next
      case (Inr f)
      note dec = this
      show ?thesis
      proof (cases "extract_frames lib 30 (f\<lparr>pos := 0\<rparr>) [] 0")
        case (Inl e)
        then show ?thesis using fv dec same undo by (simp add: resize_gif_unfold)
      next
        case (Inr triple)
        obtain img frames c where triple: "triple = (img, frames, c)" by (cases triple)
        note ex = Inr [unfolded triple]
        show ?thesis
        proof (cases frames)
          case Nil
          then show ?thesis using fv dec ex same undo by (simp add: resize_gif_unfold)
        next
          case (Cons fr rest)
          note fr = this
          show ?thesis
          proof (cases "encode_gif lib (info_duration img 100) 0 True (fr # rest)")
            case (Inl e)
            then show ?thesis using fv dec ex fr same undo by (simp add: resize_gif_unfold)
          next
            case (Inr out)
            then show ?thesis using fv dec ex fr same wr by (simp add: resize_gif_unfold)
          qed
        qed
      qed
    qed
  qed
qed

section \<open>Claims about optimize\_images.py\<close>

text \<open>
  C1, as stated, fails: a \<open>profile.png\<close> that exists but does not open as an image
  ends the run with the library's exception, and nothing is written. Here the file
  is empty.
\<close>

theorem profile_exists_but_does_not_open:
  "path_exists ''profile.png'' (world_of ''profile.png'' [])
   \<and> optimize_profile_image toy_pil (world_of ''profile.png'' [])
       = (Inl UnidentifiedImageError, world_of ''profile.png'' [])"
  by (simp add: optimize_profile_image_def path_exists_def world_of_def and_then_def
      image_open_def toy_pil_def toy_decode_def)

text \<open>
  C1, amended: when \<open>profile.png\<close> exists, opens, and each of the five saves
  succeeds, \<open>optimize_profile_image\<close> returns normally, has written the four resized
  files (200x200 and 400x400, each as PNG and as WebP) and the re-encoded original
  \<open>profile-optimized.png\<close>, and has printed the size of the original, of each
  created file and of the optimized copy, the difference of original and optimized
  size, and the closing lines.
\<close>

theorem optimize_profile_image_outputs:
  assumes "files w ''profile.png'' = Some b"
    and "decode lib b = Inr f"
    and "resize lib (image_of (f\<lparr>pos := 0\<rparr>)) (200, 200) LANCZOS = Inr small"
    and "resize lib (image_of (f\<lparr>pos := 0\<rparr>)) (400, 400) LANCZOS = Inr large"
    and "encode_png lib True small = Inr png200"
    and "encode_png lib True large = Inr png400"
    and "encode_webp lib 85 6 small = Inr webp200"
    and "encode_webp lib 85 6 large = Inr webp400"
    and "encode_png lib True (image_of (f\<lparr>pos := 0\<rparr>)) = Inr optimized"
  shows "optimize_profile_image lib w =
     (Inr (),
      w\<lparr>files := (files w)
           (''profile-200.png'' \<mapsto> png200, ''profile-400.png'' \<mapsto> png400,
            ''profile-200.webp'' \<mapsto> webp200, ''profile-400.webp'' \<mapsto> webp400,
            ''profile-optimized.png'' \<mapsto> optimized),
        stdout := stdout w @
          [''Original: '' @ str_size (fsize f) @ '', '' @ fmt_1f_kb (int (length b)) @ ''KB'',
           ''Created: profile-200.png - '' @ fmt_1f_kb (int (length png200)) @ ''KB'',
           ''Created: profile-400.png - '' @ fmt_1f_kb (int (length png400)) @ ''KB'',
           ''Created: profile-200.webp - '' @ fmt_1f_kb (int (length webp200)) @ ''KB'',
           ''Created: profile-400.webp - '' @ fmt_1f_kb (int (length webp400)) @ ''KB'',
           ''\<newline>Optimized original: profile-optimized.png - ''
              @ fmt_1f_kb (int (length optimized)) @ ''KB'',
           ''Savings: '' @ fmt_1f_kb (int (length b) - int (length optimized)) @ ''KB'']
          @ closing_lines\<rparr>)
     \<and> isize small = (200, 200) \<and> isize large = (400, 400)"
proof -
  have sz: "isize small = (200, 200)" "isize large = (400, 400)"
    using assms(3,4) by (auto simp: resize_def)
  have plan: "map (plan_one lib (image_of (f\<lparr>pos := 0\<rparr>))) sizes =
      [(''profile-200.png'', Inr png200), (''profile-400.png'', Inr png400),
       (''profile-200.webp'', Inr webp200), (''profile-400.webp'', Inr webp400)]"
    using assms(3-8) by (simp add: sizes_def plan_one_def encode_for_def endswith_def)
  show ?thesis
    using sz assms(9)
    by (simp add: optimize_profile_image_char [OF assms(1,2)] planned_outputs_def plan
        report_def outcome_def)
qed

theorem optimize_profile_image_outputs_witness:
  "fst (optimize_profile_image toy_pil (world_of ''profile.png'' [4, 4, 0, 7])) = Inr ()
   \<and> files (snd (optimize_profile_image toy_pil (world_of ''profile.png'' [4, 4, 0, 7])))
        ''profile-200.png'' = Some [200, 200, 0, 7]
   \<and> files (snd (optimize_profile_image toy_pil (world_of ''profile.png'' [4, 4, 0, 7])))
        ''profile-400.webp'' = Some [400, 400, 0, 7]
   \<and> files (snd (optimize_profile_image toy_pil (world_of ''profile.png'' [4, 4, 0, 7])))
        ''profile-optimized.png'' = Some [4, 4, 0, 7]
   \<and> length (stdout (snd (optimize_profile_image toy_pil (world_of ''profile.png'' [4, 4, 0, 7]))))
        = 11"
proof -
  let ?img = "\<lparr>mode = ''P'', isize = (4, 4), pixels = [7]\<rparr>"
  let ?small = "\<lparr>mode = ''P'', isize = (200, 200), pixels = [7]\<rparr>"
  let ?large = "\<lparr>mode = ''P'', isize = (400, 400), pixels = [7]\<rparr>"
  have h1: "files (world_of ''profile.png'' [4, 4, 0, 7]) ''profile.png'' = Some [4, 4, 0, 7]"
    by (simp add: world_of_def)
  note h2 = toy_open_profile
  have h3: "resize toy_pil (image_of (\<lparr>fmode = ''P'', fsize = (4, 4),
        frame0 = \<lparr>fpixels = [7], fduration = None\<rparr>, frames_after = [], pos = 0\<rparr>\<lparr>pos := 0\<rparr>))
        (200, 200) LANCZOS = Inr ?small"
    by (simp add: resize_def image_of_def current_frame_def toy_pil_def)
  have h4: "resize toy_pil (image_of (\<lparr>fmode = ''P'', fsize = (4, 4),
        frame0 = \<lparr>fpixels = [7], fduration = None\<rparr>, frames_after = [], pos = 0\<rparr>\<lparr>pos := 0\<rparr>))
        (400, 400) LANCZOS = Inr ?large"
    by (simp add: resize_def image_of_def current_frame_def toy_pil_def)
  have h5: "encode_png toy_pil True ?small = Inr [200, 200, 0, 7]"
    and h6: "encode_png toy_pil True ?large = Inr [400, 400, 0, 7]"
    and h7: "encode_webp toy_pil 85 6 ?small = Inr [200, 200, 0, 7]"
    and h8: "encode_webp toy_pil 85 6 ?large = Inr [400, 400, 0, 7]"
    by (simp_all add: toy_pil_def toy_encode_def)
  have h9: "encode_png toy_pil True (image_of (\<lparr>fmode = ''P'', fsize = (4, 4),
        frame0 = \<lparr>fpixels = [7], fduration = None\<rparr>, frames_after = [], pos = 0\<rparr>\<lparr>pos := 0\<rparr>))
        = Inr [4, 4, 0, 7]"
    by (simp add: image_of_def current_frame_def toy_pil_def toy_encode_def)
  have run: "optimize_profile_image toy_pil (world_of ''profile.png'' [4, 4, 0, 7]) =
     (Inr (),
      world_of ''profile.png'' [4, 4, 0, 7]
       \<lparr>files := (files (world_of ''profile.png'' [4, 4, 0, 7]))
           (''profile-200.png'' \<mapsto> [200, 200, 0, 7], ''profile-400.png'' \<mapsto> [400, 400, 0, 7],
            ''profile-200.webp'' \<mapsto> [200, 200, 0, 7], ''profile-400.webp'' \<mapsto> [400, 400, 0, 7],
            ''profile-optimized.png'' \<mapsto> [4, 4, 0, 7]),
        stdout := stdout (world_of ''profile.png'' [4, 4, 0, 7]) @
          [''Original: '' @ str_size (fsize \<lparr>fmode = ''P'', fsize = (4, 4),
               frame0 = \<lparr>fpixels = [7], fduration = None\<rparr>, frames_after = [], pos = 0\<rparr>)
             @ '', '' @ fmt_1f_kb (int (length [4, 4, 0, 7::nat])) @ ''KB'',
           ''Created: profile-200.png - '' @ fmt_1f_kb (int (length [200, 200, 0, 7::nat])) @ ''KB'',
           ''Created: profile-400.png - '' @ fmt_1f_kb (int (length [400, 400, 0, 7::nat])) @ ''KB'',
           ''Created: profile-200.webp - '' @ fmt_1f_kb (int (length [200, 200, 0, 7::nat])) @ ''KB'',
           ''Created: profile-400.webp - '' @ fmt_1f_kb (int (length [400, 400, 0, 7::nat])) @ ''KB'',
           ''\<newline>Optimized original: profile-optimized.png - ''
              @ fmt_1f_kb (int (length [4, 4, 0, 7::nat])) @ ''KB'',
           ''Savings: '' @ fmt_1f_kb (int (length [4, 4, 0, 7::nat]) - int (length [4, 4, 0, 7::nat])) @ ''KB'']
          @ closing_lines\<rparr>)"
    using optimize_profile_image_outputs [OF h1 h2 h3 h4 h5 h6 h7 h8 h9] by (rule conjunct1)
  show ?thesis
    unfolding run by (simp add: closing_lines_def world_of_def)
qed

text \<open>
  C3, as stated, fails for \<open>optimize_images\<close>: loaded under any name but
  \<open>__main__\<close> (an import), the module leaves the files and the output as they were,
  although \<open>profile.png\<close> exists.
\<close>

theorem import_of_optimize_images_does_nothing:
  "load_optimize_images True toy_pil ''optimize_images'' (world_of ''profile.png'' [4, 4, 0, 7])
     = (Inr (), world_of ''profile.png'' [4, 4, 0, 7])
   \<and> path_exists ''profile.png'' (world_of ''profile.png'' [4, 4, 0, 7])"
  by (simp add: load_optimize_images_def lift_result_def path_exists_def world_of_def)

text \<open>
  C3, amended: \<open>resize_gif\<close> runs its whole script whenever the module is loaded,
  imported or not; \<open>optimize_images\<close> only defines its function when imported and
  calls it only when loaded as \<open>__main__\<close> (Pillow being installed).
\<close>

theorem module_load_behaviour:
  assumes "name \<noteq> ''__main__''"
  shows "load_resize_gif True lib name w = resize_gif lib w
     \<and> load_resize_gif True lib ''__main__'' w = resize_gif lib w
     \<and> load_optimize_images True lib name w = (Inr (), w)
     \<and> load_optimize_images True lib ''__main__'' w = optimize_profile_image lib w"
  using assms by (simp add: load_resize_gif_def load_optimize_images_def lift_result_def)

theorem module_load_behaviour_witness:
  "load_resize_gif True toy_pil ''resize_gif'' no_files = resize_gif toy_pil no_files
   \<and> load_resize_gif True toy_pil ''__main__'' no_files = resize_gif toy_pil no_files
   \<and> load_optimize_images True toy_pil ''resize_gif'' no_files = (Inr (), no_files)
   \<and> load_optimize_images True toy_pil ''__main__'' no_files
       = optimize_profile_image toy_pil no_files"
proof -
  have "''resize_gif'' \<noteq> ''__main__''" by simp
  from module_load_behaviour [OF this] show ?thesis by blast
qed

text \<open>
  C4: with no \<open>profile.png\<close>, \<open>optimize_images\<close> run as the main program
  prints a line that names the missing path and then returns normally, so the
  process ends with exit status 0, where the claim requires a status other than 0.
  The sibling error path of the same file (Pillow missing) exits with status 1, and
  \<open>resize_gif\<close> without its input ends with a \<open>FileNotFoundError\<close> naming the
  path, status 1.
\<close>

theorem missing_profile_exits_with_status_zero:
  "load_optimize_images True toy_pil ''__main__'' no_files
     = (Inr (), no_files\<lparr>stdout := [''Error: profile.png not found'']\<rparr>)
   \<and> exit_status (fst (load_optimize_images True toy_pil ''__main__'' no_files)) = 0
   \<and> exit_status (fst (load_optimize_images False toy_pil ''__main__'' no_files)) = 1
   \<and> load_resize_gif True toy_pil ''__main__'' no_files
     = (Inl (FileNotFoundError ''assets/svg/pathway.gif''), no_files)
   \<and> exit_status (fst (load_resize_gif True toy_pil ''__main__'' no_files)) = 1"
  by (simp add: load_optimize_images_def optimize_profile_image_def path_exists_def
      no_files_def print_line_def and_then_def lift_result_def load_resize_gif_def
      resize_gif_unfold)

text \<open>
  C6, as stated, fails: the outputs are saved one at a time, and a save that
  raises leaves the earlier ones on disk. Here the library has no WebP encoder: the
  run ends with the exception of the third save, and the two PNG files, which did not
  exist before, stay.
\<close>

theorem partial_outputs_left_on_failure:
  "fst (optimize_profile_image toy_pil_without_webp (world_of ''profile.png'' [4, 4, 0, 7]))
     = Inl (OSError ''encoder webp not available'')
   \<and> files (snd (optimize_profile_image toy_pil_without_webp (world_of ''profile.png'' [4, 4, 0, 7])))
        ''profile-200.png'' = Some [200, 200, 0, 7]
   \<and> files (snd (optimize_profile_image toy_pil_without_webp (world_of ''profile.png'' [4, 4, 0, 7])))
        ''profile-400.png'' = Some [400, 400, 0, 7]
   \<and> files (snd (optimize_profile_image toy_pil_without_webp (world_of ''profile.png'' [4, 4, 0, 7])))
        ''profile-200.webp'' = None
   \<and> files (world_of ''profile.png'' [4, 4, 0, 7]) ''profile-200.png'' = None"
proof -
  have h1: "files (world_of ''profile.png'' [4, 4, 0, 7]) ''profile.png'' = Some [4, 4, 0, 7]"
    by (simp add: world_of_def)
  have h2: "decode toy_pil_without_webp [4, 4, 0, 7] =
     Inr \<lparr>fmode = ''P'', fsize = (4, 4), frame0 = \<lparr>fpixels = [7], fduration = None\<rparr>,
          frames_after = [], pos = 0\<rparr>"
    by (simp add: toy_pil_without_webp_def toy_pil_def toy_decode_def)
  show ?thesis
    unfolding optimize_profile_image_char [OF h1 h2]
    by (simp add: planned_outputs_def sizes_def
        plan_one_def resize_def encode_for_def endswith_def outcome_def
        toy_pil_without_webp_def toy_pil_def toy_encode_def image_of_def current_frame_def
        world_of_def)
qed

text \<open>
  C6, amended: when \<open>profile.png\<close> opens, \<open>optimize_profile_image\<close> writes its
  outputs in the order \<open>profile-200.png\<close>, \<open>profile-400.png\<close>,
  \<open>profile-200.webp\<close>, \<open>profile-400.webp\<close>, \<open>profile-optimized.png\<close>; it
  stops at the first one that raises and ends with that exception, the outputs
  written before it stay on disk, and no later output is written.
\<close>

theorem outputs_committed_until_first_failure:
  assumes "files w ''profile.png'' = Some b" and "decode lib b = Inr f"
  shows "fst (optimize_profile_image lib w)
           = outcome (first_error (planned_outputs lib (image_of (f\<lparr>pos := 0\<rparr>))))
     \<and> files (snd (optimize_profile_image lib w))
           = commit (planned_outputs lib (image_of (f\<lparr>pos := 0\<rparr>))) (files w)
     \<and> map fst (planned_outputs lib (image_of (f\<lparr>pos := 0\<rparr>)))
           = [''profile-200.png'', ''profile-400.png'', ''profile-200.webp'',
              ''profile-400.webp'', ''profile-optimized.png'']"
  by (simp add: optimize_profile_image_char [OF assms] planned_outputs_def sizes_def plan_one_def)

theorem outputs_committed_until_first_failure_witness:
  "fst (optimize_profile_image toy_pil_without_webp (world_of ''profile.png'' [4, 4, 0, 7]))
     = Inl (OSError ''encoder webp not available'')
   \<and> files (snd (optimize_profile_image toy_pil_without_webp (world_of ''profile.png'' [4, 4, 0, 7])))
     = [''profile.png'' \<mapsto> [4, 4, 0, 7], ''profile-200.png'' \<mapsto> [200, 200, 0, 7],
        ''profile-400.png'' \<mapsto> [400, 400, 0, 7]]"
proof -
  have h1: "files (world_of ''profile.png'' [4, 4, 0, 7]) ''profile.png'' = Some [4, 4, 0, 7]"
    by (simp add: world_of_def)
  have h2: "decode toy_pil_without_webp [4, 4, 0, 7] =
     Inr \<lparr>fmode = ''P'', fsize = (4, 4), frame0 = \<lparr>fpixels = [7], fduration = None\<rparr>,
          frames_after = [], pos = 0\<rparr>"
    by (simp add: toy_pil_without_webp_def toy_pil_def toy_decode_def)
  have plan: "planned_outputs toy_pil_without_webp
      (image_of (\<lparr>fmode = ''P'', fsize = (4, 4), frame0 = \<lparr>fpixels = [7], fduration = None\<rparr>,
          frames_after = [], pos = 0\<rparr>\<lparr>pos := 0\<rparr>)) =
      [(''profile-200.png'', Inr [200, 200, 0, 7]), (''profile-400.png'', Inr [400, 400, 0, 7]),
       (''profile-200.webp'', Inl (OSError ''encoder webp not available'')),
       (''profile-400.webp'', Inl (OSError ''encoder webp not available'')),
       (''profile-optimized.png'', Inr [4, 4, 0, 7])]"
    by (simp add: planned_outputs_def sizes_def
        plan_one_def resize_def encode_for_def endswith_def
        toy_pil_without_webp_def toy_pil_def toy_encode_def image_of_def current_frame_def)
  from outputs_committed_until_first_failure [OF h1 h2]
  show ?thesis
    unfolding plan by (simp add: outcome_def world_of_def fun_upd_twist)
qed

text \<open>
  C10: the RGB copy \<open>img_rgb\<close> is never used. The function with lines 40 to 47
  deleted is the same function, and the function does not depend on what the
  library's conversion, band and paste operations compute: the resized files and the
  optimized copy come from the image as opened.
\<close>

theorem rgb_copy_is_unused:
  "optimize_profile_image_without_rgb lib w = optimize_profile_image lib w
   \<and> optimize_profile_image (lib\<lparr>convert_pixels := cv, band_pixels := bd, paste_pixels := ps\<rparr>) w
       = optimize_profile_image lib w"
proof
  show "optimize_profile_image_without_rgb lib w = optimize_profile_image lib w"
    by (simp add: optimize_profile_image_without_rgb_def optimize_profile_image_def Let_def)
next
  let ?lib' = "lib\<lparr>convert_pixels := cv, band_pixels := bd, paste_pixels := ps\<rparr>"
  have sv: "save_sizes ?lib' img szs = save_sizes lib img szs" for img szs
    by (rule ext) (simp add: save_sizes_char plan_one_conversions)
  have rest: "optimize_rest ?lib' p img = optimize_rest lib p img" for p img
    by (simp add: optimize_rest_def sv save_png_def)
  have opn: "image_open ?lib' p = image_open lib p" for p
    by (rule ext) (simp add: image_open_def split: option.splits)
  show "optimize_profile_image ?lib' w = optimize_profile_image lib w"
    by (simp add: optimize_profile_image_def Let_def rest opn)
qed

theorem rgb_copy_is_unused_witness:
  "optimize_profile_image_without_rgb toy_pil (world_of ''profile.png'' [4, 4, 0, 7])
     = optimize_profile_image toy_pil (world_of ''profile.png'' [4, 4, 0, 7])
   \<and> optimize_profile_image
       (toy_pil\<lparr>convert_pixels := (\<lambda>m img. []), band_pixels := (\<lambda>k img. []),
                paste_pixels := (\<lambda>dest src msk. [])\<rparr>)
       (world_of ''profile.png'' [4, 4, 0, 7])
     = optimize_profile_image toy_pil (world_of ''profile.png'' [4, 4, 0, 7])"
  by (rule rgb_copy_is_unused)

section \<open>Claims about resize\_gif.py\<close>

text \<open>
  C8, as stated, fails in two ways. A GIF one pixel wide or high opens, but its
  half size is empty, the first resize raises \<open>ValueError\<close>, the loop collects no
  frame and nothing is saved. And the number of frames in the saved file is the
  encoder's: with an encoder that writes identical consecutive frames once, an input
  of three equal frames is saved as a GIF of one frame, not of min(3, 30).
\<close>

theorem one_pixel_gif_collects_no_frame:
  "decode toy_pil [1, 1, 0, 7]
     = Inr \<lparr>fmode = ''P'', fsize = (1, 1), frame0 = \<lparr>fpixels = [7], fduration = None\<rparr>,
            frames_after = [], pos = 0\<rparr>
   \<and> extract_frames toy_pil 30
       (\<lparr>fmode = ''P'', fsize = (1, 1), frame0 = \<lparr>fpixels = [7], fduration = None\<rparr>,
         frames_after = [], pos = 0\<rparr>\<lparr>pos := 0\<rparr>) [] 0
     = Inl (ValueError ''height and width must be > 0'')
   \<and> resize_gif toy_pil (world_of ''assets/svg/pathway.gif'' [1, 1, 0, 7])
     = (Inl (ValueError ''height and width must be > 0''),
        world_of ''assets/svg/pathway.gif'' [1, 1, 0, 7])
   \<and> decode toy_pil_merging [4, 4, 2, 7]
     = Inr \<lparr>fmode = ''P'', fsize = (4, 4), frame0 = \<lparr>fpixels = [7], fduration = None\<rparr>,
            frames_after = [\<lparr>fpixels = [7], fduration = None\<rparr>, \<lparr>fpixels = [7], fduration = None\<rparr>],
            pos = 0\<rparr>
   \<and> files (snd (resize_gif toy_pil_merging (world_of ''assets/svg/pathway.gif'' [4, 4, 2, 7])))
        ''assets/svg/pathway_temp.gif'' = Some [2, 2, 0, 7]
   \<and> decode toy_pil_merging [2, 2, 0, 7]
     = Inr \<lparr>fmode = ''P'', fsize = (2, 2), frame0 = \<lparr>fpixels = [7], fduration = None\<rparr>,
            frames_after = [], pos = 0\<rparr>
   \<and> n_frames \<lparr>fmode = ''P'', fsize = (2, 2), frame0 = \<lparr>fpixels = [7], fduration = None\<rparr>,
            frames_after = [], pos = 0\<rparr> = 1"
proof (intro conjI)
  show h2: "decode toy_pil [1, 1, 0, 7]
     = Inr \<lparr>fmode = ''P'', fsize = (1, 1), frame0 = \<lparr>fpixels = [7], fduration = None\<rparr>,
            frames_after = [], pos = 0\<rparr>"
    by (simp add: toy_pil_def toy_decode_def)
  show ex: "extract_frames toy_pil 30
       (\<lparr>fmode = ''P'', fsize = (1, 1), frame0 = \<lparr>fpixels = [7], fduration = None\<rparr>,
         frames_after = [], pos = 0\<rparr>\<lparr>pos := 0\<rparr>) [] 0
     = Inl (ValueError ''height and width must be > 0'')"
    by (subst extract_frames.simps) (simp add: resize_def)
  have h1: "files (world_of ''assets/svg/pathway.gif'' [1, 1, 0, 7]) ''assets/svg/pathway.gif''
      = Some [1, 1, 0, 7]"
    by (simp add: world_of_def)
  show "resize_gif toy_pil (world_of ''assets/svg/pathway.gif'' [1, 1, 0, 7])
     = (Inl (ValueError ''height and width must be > 0''),
        world_of ''assets/svg/pathway.gif'' [1, 1, 0, 7])"
    unfolding resize_gif_unfold h1 option.case h2 sum.case ex by (rule refl)
  have three: "replicate 2 \<lparr>fpixels = [7::nat], fduration = None\<rparr>
      = [\<lparr>fpixels = [7], fduration = None\<rparr>, \<lparr>fpixels = [7], fduration = None\<rparr>]"
    by (simp add: numeral_2_eq_2)
  show "decode toy_pil_merging [4, 4, 2, 7]
     = Inr \<lparr>fmode = ''P'', fsize = (4, 4), frame0 = \<lparr>fpixels = [7], fduration = None\<rparr>,
            frames_after = [\<lparr>fpixels = [7], fduration = None\<rparr>, \<lparr>fpixels = [7], fduration = None\<rparr>],
            pos = 0\<rparr>"
    by (simp add: toy_pil_merging_def toy_pil_def toy_decode_def three)
  have g1: "files (world_of ''assets/svg/pathway.gif'' [4, 4, 2, 7]) ''assets/svg/pathway.gif''
      = Some [4, 4, 2, 7]"
    by (simp add: world_of_def)
  have g2: "decode toy_pil_merging [4, 4, 2, 7]
     = Inr \<lparr>fmode = ''P'', fsize = (4, 4), frame0 = \<lparr>fpixels = [7], fduration = None\<rparr>,
            frames_after = replicate 2 \<lparr>fpixels = [7], fduration = None\<rparr>, pos = 0\<rparr>"
    by (simp add: toy_pil_merging_def toy_pil_def toy_decode_def)
  have g3: "extract_frames toy_pil_merging 30
       (\<lparr>fmode = ''P'', fsize = (4, 4), frame0 = \<lparr>fpixels = [7], fduration = None\<rparr>,
         frames_after = replicate 2 \<lparr>fpixels = [7], fduration = None\<rparr>, pos = 0\<rparr>\<lparr>pos := 0\<rparr>) [] 0
     = Inr (\<lparr>fmode = ''P'', fsize = (4, 4), frame0 = \<lparr>fpixels = [7], fduration = None\<rparr>,
             frames_after = replicate 2 \<lparr>fpixels = [7], fduration = None\<rparr>, pos = 2\<rparr>,
            [\<lparr>mode = ''P'', isize = (2, 2), pixels = [7]\<rparr>,
             \<lparr>mode = ''P'', isize = (2, 2), pixels = [7]\<rparr>,
             \<lparr>mode = ''P'', isize = (2, 2), pixels = [7]\<rparr>], 2)"
    by (subst gif_frames)
       (simp_all add: n_frames_def half_frame_def image_of_def current_frame_def
          toy_pil_merging_def toy_pil_def upt_rec [of 0] upt_rec [of 1] upt_rec [of 2]
          nth_Cons' three)
  show "files (snd (resize_gif toy_pil_merging (world_of ''assets/svg/pathway.gif'' [4, 4, 2, 7])))
        ''assets/svg/pathway_temp.gif'' = Some [2, 2, 0, 7]"
    unfolding resize_gif_unfold g1 option.case g2 sum.case g3 prod.case list.case
    by (simp add: toy_pil_merging_def toy_encode_def)
  show "decode toy_pil_merging [2, 2, 0, 7]
     = Inr \<lparr>fmode = ''P'', fsize = (2, 2), frame0 = \<lparr>fpixels = [7], fduration = None\<rparr>,
            frames_after = [], pos = 0\<rparr>"
    by (simp add: toy_pil_merging_def toy_pil_def toy_decode_def)
  show "n_frames \<lparr>fmode = ''P'', fsize = (2, 2), frame0 = \<lparr>fpixels = [7], fduration = None\<rparr>,
            frames_after = [], pos = 0\<rparr> = 1"
    by (simp add: n_frames_def)
qed

text \<open>
  C8, amended: for every input GIF that opens and is at least 2 pixels wide and
  2 pixels high, the frame loop ends with between 1 and 30 frames, exactly
  min(number of frames of the input, 30) of them; these frames are what is handed to
  the encoder, its result is the file saved, and the line printed reports their
  number. With a library whose GIF codec keeps every frame, the saved output GIF
  contains exactly min(number of frames of the input, 30) frames.
\<close>

theorem extract_frames_count:
  assumes "files w ''assets/svg/pathway.gif'' = Some b" and "decode lib b = Inr f"
    and "2 \<le> fst (fsize f)" and "2 \<le> snd (fsize f)"
  shows "\<exists>img frames c.
      extract_frames lib 30 (f\<lparr>pos := 0\<rparr>) [] 0 = Inr (img, frames, c)
      \<and> length frames = min (n_frames f) 30
      \<and> 1 \<le> length frames \<and> length frames \<le> 30
      \<and> resize_gif lib w =
          (case encode_gif lib (info_duration img 100) 0 True frames of
             Inl e \<Rightarrow> (Inl e, w)
           | Inr out \<Rightarrow>
               (Inr (),
                w\<lparr>files := (files w)(''assets/svg/pathway_temp.gif'' \<mapsto> out),
                  stdout := stdout w @
                    [''Created temporary GIF with '' @ str_nat (length frames) @ '' frames'']\<rparr>))
      \<and> (gif_keeps_frames lib \<longrightarrow>
           (\<forall>out. encode_gif lib (info_duration img 100) 0 True frames = Inr out \<longrightarrow>
              files (snd (resize_gif lib w)) ''assets/svg/pathway_temp.gif'' = Some out
              \<and> (\<exists>g. decode lib out = Inr g \<and> n_frames g = min (n_frames f) 30)))"
proof -
  let ?frames = "map (half_frame lib f) [0 ..< min (n_frames f) 30]"
  let ?img = "f\<lparr>pos := min (n_frames f - 1) 30\<rparr>"
  note ex = gif_frames [OF assms(3,4), of lib]
  have len: "length ?frames = min (n_frames f) 30" by simp
  have pos: "1 \<le> length ?frames" by (simp add: n_frames_def)
  then obtain fr rest where fr: "?frames = fr # rest"
    by (cases ?frames) auto
  have ne: "?frames \<noteq> []" using fr by simp
  have nz: "\<forall>img\<in>set ?frames. fst (isize img) \<noteq> 0 \<and> snd (isize img) \<noteq> 0"
    using assms(3,4) by (auto simp: half_frame_def)
  have run: "resize_gif lib w =
          (case encode_gif lib (info_duration ?img 100) 0 True ?frames of
             Inl e \<Rightarrow> (Inl e, w)
           | Inr out \<Rightarrow>
               (Inr (),
                w\<lparr>files := (files w)(''assets/svg/pathway_temp.gif'' \<mapsto> out),
                  stdout := stdout w @
                    [''Created temporary GIF with '' @ str_nat (length ?frames) @ '' frames'']\<rparr>))"
    unfolding resize_gif_unfold assms(1) option.case assms(2) sum.case ex prod.case fr list.case
    by (rule refl)
  have saved: "files (snd (resize_gif lib w)) ''assets/svg/pathway_temp.gif'' = Some out
        \<and> (\<exists>g. decode lib out = Inr g \<and> n_frames g = min (n_frames f) 30)"
    if keeps: "gif_keeps_frames lib"
      and enc: "encode_gif lib (info_duration ?img 100) 0 True ?frames = Inr out" for out
  proof
    show "files (snd (resize_gif lib w)) ''assets/svg/pathway_temp.gif'' = Some out"
      unfolding run enc by simp
    from keeps ne nz enc have "\<exists>g. decode lib out = Inr g \<and> n_frames g = length ?frames"
      unfolding gif_keeps_frames_def by blast
    then show "\<exists>g. decode lib out = Inr g \<and> n_frames g = min (n_frames f) 30"
      unfolding len .
  qed
  show ?thesis
    using ex len pos run saved
    by (intro exI [of _ ?img] exI [of _ ?frames] exI [of _ "min (n_frames f - 1) 30"]) auto
qed

theorem extract_frames_count_witness:
  "length (case extract_frames toy_pil 30
        (\<lparr>fmode = ''P'', fsize = (4, 4), frame0 = \<lparr>fpixels = [7], fduration = None\<rparr>,
          frames_after = replicate 2 \<lparr>fpixels = [7], fduration = None\<rparr>, pos = 0\<rparr>\<lparr>pos := 0\<rparr>) [] 0 of
       Inl e \<Rightarrow> [] | Inr (img, frames, c) \<Rightarrow> frames) = 3
   \<and> gif_keeps_frames toy_pil
   \<and> (\<exists>out g. files (snd (resize_gif toy_pil (world_of ''assets/svg/pathway.gif'' [4, 4, 2, 7])))
          ''assets/svg/pathway_temp.gif'' = Some out
        \<and> decode toy_pil out = Inr g \<and> n_frames g = 3)"
proof -
  have h1: "files (world_of ''assets/svg/pathway.gif'' [4, 4, 2, 7]) ''assets/svg/pathway.gif''
      = Some [4, 4, 2, 7]"
    by (simp add: world_of_def)
  have h2: "decode toy_pil [4, 4, 2, 7] =
      Inr \<lparr>fmode = ''P'', fsize = (4, 4), frame0 = \<lparr>fpixels = [7], fduration = None\<rparr>,
          frames_after = replicate 2 \<lparr>fpixels = [7], fduration = None\<rparr>, pos = 0\<rparr>"
    by (simp add: toy_pil_def toy_decode_def)
  have keeps: "gif_keeps_frames toy_pil"
    unfolding gif_keeps_frames_def
    by (auto simp: toy_pil_def toy_encode_def toy_decode_def n_frames_def neq_Nil_conv)
  have enc: "\<exists>out. encode_gif toy_pil d l opt imgs = Inr out" for d l opt imgs
    by (simp add: toy_pil_def)
  from extract_frames_count [OF h1 h2] obtain img frames c where
    e: "extract_frames toy_pil 30
        (\<lparr>fmode = ''P'', fsize = (4, 4), frame0 = \<lparr>fpixels = [7], fduration = None\<rparr>,
          frames_after = replicate 2 \<lparr>fpixels = [7], fduration = None\<rparr>, pos = 0\<rparr>\<lparr>pos := 0\<rparr>) [] 0
        = Inr (img, frames, c)"
    and n: "length frames = 3"
    and s: "gif_keeps_frames toy_pil \<longrightarrow>
           (\<forall>out. encode_gif toy_pil (info_duration img 100) 0 True frames = Inr out \<longrightarrow>
              files (snd (resize_gif toy_pil (world_of ''assets/svg/pathway.gif'' [4, 4, 2, 7])))
                ''assets/svg/pathway_temp.gif'' = Some out
              \<and> (\<exists>g. decode toy_pil out = Inr g \<and> n_frames g = 3))"
    by (auto simp: n_frames_def)
  from enc obtain out where "encode_gif toy_pil (info_duration img 100) 0 True frames = Inr out"
    by blast
  with s keeps have "\<exists>out g. files (snd (resize_gif toy_pil (world_of ''assets/svg/pathway.gif'' [4, 4, 2, 7])))
          ''assets/svg/pathway_temp.gif'' = Some out
        \<and> decode toy_pil out = Inr g \<and> n_frames g = 3"
    by blast
  with e n keeps show ?thesis by simp
qed

text \<open>
  C9: for every source GIF of size (w, h) with w and h at least 2, every frame
  handed to the encoder of the output GIF has size (w div 2, h div 2), and the output
  file is that encoder's result.
\<close>

theorem output_frames_have_half_size:
  assumes "files w ''assets/svg/pathway.gif'' = Some b" and "decode lib b = Inr f"
    and "2 \<le> fst (fsize f)" and "2 \<le> snd (fsize f)"
  shows "\<exists>img frames c.
      extract_frames lib 30 (f\<lparr>pos := 0\<rparr>) [] 0 = Inr (img, frames, c)
      \<and> frames \<noteq> []
      \<and> (\<forall>fr\<in>set frames. isize fr = (fst (fsize f) div 2, snd (fsize f) div 2))
      \<and> (\<forall>out. encode_gif lib (info_duration img 100) 0 True frames = Inr out \<longrightarrow>
            files (snd (resize_gif lib w)) ''assets/svg/pathway_temp.gif'' = Some out)"
proof -
  let ?frames = "map (half_frame lib f) [0 ..< min (n_frames f) 30]"
  let ?img = "f\<lparr>pos := min (n_frames f - 1) 30\<rparr>"
  note ex = gif_frames [OF assms(3,4), of lib]
  have ne: "?frames \<noteq> []" by (simp add: n_frames_def)
  then obtain fr rest where fr: "?frames = fr # rest"
    by (cases ?frames) auto
  have half: "\<forall>fr\<in>set ?frames. isize fr = (fst (fsize f) div 2, snd (fsize f) div 2)"
    by (simp add: half_frame_def)
  have saved: "\<forall>out. encode_gif lib (info_duration ?img 100) 0 True ?frames = Inr out \<longrightarrow>
            files (snd (resize_gif lib w)) ''assets/svg/pathway_temp.gif'' = Some out"
    unfolding resize_gif_unfold assms(1) option.case assms(2) sum.case ex prod.case fr list.case
    by simp
  show ?thesis
    using ex ne half saved by (intro exI [of _ ?img] exI [of _ ?frames] exI) blast
qed

theorem output_frames_have_half_size_witness:
  "set (case extract_frames toy_pil 30
        (\<lparr>fmode = ''P'', fsize = (4, 4), frame0 = \<lparr>fpixels = [7], fduration = None\<rparr>,
          frames_after = replicate 2 \<lparr>fpixels = [7], fduration = None\<rparr>, pos = 0\<rparr>\<lparr>pos := 0\<rparr>) [] 0 of
       Inl e \<Rightarrow> [] | Inr (img, frames, c) \<Rightarrow> map isize frames) = {(2, 2)}"
proof -
  have h1: "files (world_of ''assets/svg/pathway.gif'' [4, 4, 2, 7]) ''assets/svg/pathway.gif''
      = Some [4, 4, 2, 7]"
    by (simp add: world_of_def)
  have h2: "decode toy_pil [4, 4, 2, 7] =
      Inr \<lparr>fmode = ''P'', fsize = (4, 4), frame0 = \<lparr>fpixels = [7], fduration = None\<rparr>,
          frames_after = replicate 2 \<lparr>fpixels = [7], fduration = None\<rparr>, pos = 0\<rparr>"
    by (simp add: toy_pil_def toy_decode_def)
  from output_frames_have_half_size [OF h1 h2] obtain img frames c where
    "extract_frames toy_pil 30
        (\<lparr>fmode = ''P'', fsize = (4, 4), frame0 = \<lparr>fpixels = [7], fduration = None\<rparr>,
          frames_after = replicate 2 \<lparr>fpixels = [7], fduration = None\<rparr>, pos = 0\<rparr>\<lparr>pos := 0\<rparr>) [] 0
       = Inr (img, frames, c)"
    and "frames \<noteq> []" and "\<forall>fr\<in>set frames. isize fr = (2, 2)"
    by auto
  then show ?thesis by (cases frames) auto
qed

section \<open>Claims about both scripts\<close>

text \<open>
  C5, as stated, fails for \<open>resize_gif\<close>: the size of its frames follows the
  input. A 4x4 input gives a 2x2 frame, an 8x8 input a 4x4 frame.
\<close>

theorem gif_output_size_follows_the_input:
  "extract_frames toy_pil 30
      (\<lparr>fmode = ''P'', fsize = (4, 4), frame0 = \<lparr>fpixels = [7], fduration = None\<rparr>,
        frames_after = [], pos = 0\<rparr>\<lparr>pos := 0\<rparr>) [] 0
     = Inr (\<lparr>fmode = ''P'', fsize = (4, 4), frame0 = \<lparr>fpixels = [7], fduration = None\<rparr>,
             frames_after = [], pos = 0\<rparr>,
            [\<lparr>mode = ''P'', isize = (2, 2), pixels = [7]\<rparr>], 0)
   \<and> extract_frames toy_pil 30
      (\<lparr>fmode = ''P'', fsize = (8, 8), frame0 = \<lparr>fpixels = [7], fduration = None\<rparr>,
        frames_after = [], pos = 0\<rparr>\<lparr>pos := 0\<rparr>) [] 0
     = Inr (\<lparr>fmode = ''P'', fsize = (8, 8), frame0 = \<lparr>fpixels = [7], fduration = None\<rparr>,
             frames_after = [], pos = 0\<rparr>,
            [\<lparr>mode = ''P'', isize = (4, 4), pixels = [7]\<rparr>], 0)"
proof
  show "extract_frames toy_pil 30
      (\<lparr>fmode = ''P'', fsize = (4, 4), frame0 = \<lparr>fpixels = [7], fduration = None\<rparr>,
        frames_after = [], pos = 0\<rparr>\<lparr>pos := 0\<rparr>) [] 0
     = Inr (\<lparr>fmode = ''P'', fsize = (4, 4), frame0 = \<lparr>fpixels = [7], fduration = None\<rparr>,
             frames_after = [], pos = 0\<rparr>,
            [\<lparr>mode = ''P'', isize = (2, 2), pixels = [7]\<rparr>], 0)"
    by (subst gif_frames)
       (simp_all add: n_frames_def half_frame_def image_of_def current_frame_def toy_pil_def)
  show "extract_frames toy_pil 30
      (\<lparr>fmode = ''P'', fsize = (8, 8), frame0 = \<lparr>fpixels = [7], fduration = None\<rparr>,
        frames_after = [], pos = 0\<rparr>\<lparr>pos := 0\<rparr>) [] 0
     = Inr (\<lparr>fmode = ''P'', fsize = (8, 8), frame0 = \<lparr>fpixels = [7], fduration = None\<rparr>,
             frames_after = [], pos = 0\<rparr>,
            [\<lparr>mode = ''P'', isize = (4, 4), pixels = [7]\<rparr>], 0)"
    by (subst gif_frames)
       (simp_all add: n_frames_def half_frame_def image_of_def current_frame_def toy_pil_def)
qed

text \<open>
  C5, amended: every resized output of \<open>optimize_images\<close> has the size given
  for its file name in \<open>sizes\<close>, 200x200 or 400x400, whatever the input image is,
  and that image is what the file written under that name encodes; every frame of
  \<open>resize_gif\<close> has half the size of the input, (w div 2, h div 2), for an input at
  least 2 pixels wide and high.
\<close>

theorem resized_output_sizes:
  assumes "files w ''profile.png'' = Some b" and "decode lib b = Inr f"
    and "(filename, sz) \<in> set sizes"
    and "files v ''assets/svg/pathway.gif'' = Some b'" and "decode lib b' = Inr g"
    and "2 \<le> fst (fsize g)" and "2 \<le> snd (fsize g)"
  shows "(sz = (200, 200) \<or> sz = (400, 400))
     \<and> (\<exists>resized. resize lib (image_of (f\<lparr>pos := 0\<rparr>)) sz LANCZOS = Inr resized
          \<and> isize resized = sz
          \<and> (fst (optimize_profile_image lib w) = Inr () \<longrightarrow>
               (\<exists>out. encode_for lib filename resized = Inr out
                  \<and> files (snd (optimize_profile_image lib w)) filename = Some out)))
     \<and> (\<exists>img frames c. extract_frames lib 30 (g\<lparr>pos := 0\<rparr>) [] 0 = Inr (img, frames, c)
          \<and> frames \<noteq> []
          \<and> (\<forall>fr\<in>set frames. isize fr = (fst (fsize g) div 2, snd (fsize g) div 2)))"
proof (intro conjI)
  show "sz = (200, 200) \<or> sz = (400, 400)"
    using assms(3) by (auto simp: sizes_def)
next
  let ?img = "image_of (f\<lparr>pos := 0\<rparr>)"
  let ?resized = "\<lparr>mode = mode ?img, isize = sz, pixels = resample lib LANCZOS ?img sz\<rparr>"
  have nz: "fst sz \<noteq> 0 \<and> snd sz \<noteq> 0"
    using assms(3) by (auto simp: sizes_def)
  then have rs: "resize lib ?img sz LANCZOS = Inr ?resized"
    by (simp add: resize_def)
  have mem: "(filename, encode_for lib filename ?resized) \<in> set (planned_outputs lib ?img)"
    using assms(3) rs by (force simp: planned_outputs_def plan_one_def image_iff)
  have dist: "distinct (map fst (planned_outputs lib ?img))"
    by (simp add: planned_outputs_def sizes_def plan_one_def)
  have "\<exists>out. encode_for lib filename ?resized = Inr out
          \<and> files (snd (optimize_profile_image lib w)) filename = Some out"
    if ok: "fst (optimize_profile_image lib w) = Inr ()"
  proof -
    from ok have "first_error (planned_outputs lib ?img) = None"
      by (simp add: optimize_profile_image_char [OF assms(1,2)] outcome_def split: option.splits)
    from commit_lookup [OF this dist mem, of "files w"] show ?thesis
      by (simp add: optimize_profile_image_char [OF assms(1,2)])
  qed
  then show "\<exists>resized. resize lib ?img sz LANCZOS = Inr resized \<and> isize resized = sz
          \<and> (fst (optimize_profile_image lib w) = Inr () \<longrightarrow>
               (\<exists>out. encode_for lib filename resized = Inr out
                  \<and> files (snd (optimize_profile_image lib w)) filename = Some out))"
    using rs by (intro exI [of _ ?resized]) simp
next
  let ?frames = "map (half_frame lib g) [0 ..< min (n_frames g) 30]"
  have "?frames \<noteq> []" by (simp add: n_frames_def)
  moreover have "\<forall>fr\<in>set ?frames. isize fr = (fst (fsize g) div 2, snd (fsize g) div 2)"
    by (simp add: half_frame_def)
  ultimately show "\<exists>img frames c. extract_frames lib 30 (g\<lparr>pos := 0\<rparr>) [] 0 = Inr (img, frames, c)
          \<and> frames \<noteq> []
          \<and> (\<forall>fr\<in>set frames. isize fr = (fst (fsize g) div 2, snd (fsize g) div 2))"
    using gif_frames [OF assms(6,7), of lib] by blast
qed

theorem resized_output_sizes_witness:
  "(\<exists>resized. resize toy_pil (image_of (\<lparr>fmode = ''P'', fsize = (4, 4),
          frame0 = \<lparr>fpixels = [7], fduration = None\<rparr>, frames_after = [], pos = 0\<rparr>\<lparr>pos := 0\<rparr>))
        (400, 400) LANCZOS = Inr resized \<and> isize resized = (400, 400))
   \<and> (\<exists>img frames c. extract_frames toy_pil 30
        (\<lparr>fmode = ''P'', fsize = (4, 4), frame0 = \<lparr>fpixels = [7], fduration = None\<rparr>,
          frames_after = replicate 2 \<lparr>fpixels = [7], fduration = None\<rparr>, pos = 0\<rparr>\<lparr>pos := 0\<rparr>) [] 0
          = Inr (img, frames, c)
        \<and> frames \<noteq> [] \<and> set (map isize frames) = {(2, 2)})"
proof -
  have h1: "files (world_of ''profile.png'' [4, 4, 0, 7]) ''profile.png'' = Some [4, 4, 0, 7]"
    by (simp add: world_of_def)
  note h2 = toy_open_profile
  have h3: "(''profile-400.webp'', (400, 400)) \<in> set sizes" by (simp add: sizes_def)
  have h4: "files (world_of ''assets/svg/pathway.gif'' [4, 4, 2, 7]) ''assets/svg/pathway.gif''
      = Some [4, 4, 2, 7]"
    by (simp add: world_of_def)
  have h5: "decode toy_pil [4, 4, 2, 7] =
      Inr \<lparr>fmode = ''P'', fsize = (4, 4), frame0 = \<lparr>fpixels = [7], fduration = None\<rparr>,
          frames_after = replicate 2 \<lparr>fpixels = [7], fduration = None\<rparr>, pos = 0\<rparr>"
    by (simp add: toy_pil_def toy_decode_def)
  from resized_output_sizes [OF h1 h2 h3 h4 h5] obtain resized img frames c where
    r: "resize toy_pil (image_of (\<lparr>fmode = ''P'', fsize = (4, 4),
          frame0 = \<lparr>fpixels = [7], fduration = None\<rparr>, frames_after = [], pos = 0\<rparr>\<lparr>pos := 0\<rparr>))
        (400, 400) LANCZOS = Inr resized" "isize resized = (400, 400)"
    and e: "extract_frames toy_pil 30
        (\<lparr>fmode = ''P'', fsize = (4, 4), frame0 = \<lparr>fpixels = [7], fduration = None\<rparr>,
          frames_after = replicate 2 \<lparr>fpixels = [7], fduration = None\<rparr>, pos = 0\<rparr>\<lparr>pos := 0\<rparr>) [] 0
          = Inr (img, frames, c)"
    and ne: "frames \<noteq> []" and al: "\<forall>fr\<in>set frames. isize fr = (2, 2)"
    by auto
  have "set (map isize frames) = {(2, 2)}"
    using ne al by (cases frames) auto
  with r e ne show ?thesis by blast
qed

text \<open>
  C7: a run of either script is determined by the content of its input file. Run
  in any world, the script returns what it returns in the world that holds nothing
  but that input and has printed nothing, and leaves the files and the lines of that
  isolated run laid over the world it started in. So two runs on the same input end
  the same way, print the same lines and write the same files with the same content,
  whatever else is on disk and whatever was printed before.
\<close>

theorem runs_depend_on_the_input_only:
  assumes "files w ''profile.png'' = c" and "files v ''assets/svg/pathway.gif'' = d"
  shows "optimize_profile_image lib w =
       (fst (optimize_profile_image lib (isolated ''profile.png'' c)),
        over w (snd (optimize_profile_image lib (isolated ''profile.png'' c))))
     \<and> resize_gif lib v =
       (fst (resize_gif lib (isolated ''assets/svg/pathway.gif'' d)),
        over v (snd (resize_gif lib (isolated ''assets/svg/pathway.gif'' d))))"
  using optimize_frame [OF assms(1)] resize_gif_frame [OF assms(2)] by simp

theorem runs_depend_on_the_input_only_witness:
  "optimize_profile_image toy_pil
       \<lparr>files = [''profile.png'' \<mapsto> [4, 4, 0, 7], ''profile-200.png'' \<mapsto> [1]], stdout = [''before'']\<rparr> =
       (fst (optimize_profile_image toy_pil (isolated ''profile.png'' (Some [4, 4, 0, 7]))),
        over \<lparr>files = [''profile.png'' \<mapsto> [4, 4, 0, 7], ''profile-200.png'' \<mapsto> [1]], stdout = [''before'']\<rparr>
          (snd (optimize_profile_image toy_pil (isolated ''profile.png'' (Some [4, 4, 0, 7])))))
   \<and> resize_gif toy_pil
       \<lparr>files = [''assets/svg/pathway.gif'' \<mapsto> [4, 4, 2, 7]], stdout = [''before'']\<rparr> =
       (fst (resize_gif toy_pil (isolated ''assets/svg/pathway.gif'' (Some [4, 4, 2, 7]))),
        over \<lparr>files = [''assets/svg/pathway.gif'' \<mapsto> [4, 4, 2, 7]], stdout = [''before'']\<rparr>
          (snd (resize_gif toy_pil (isolated ''assets/svg/pathway.gif'' (Some [4, 4, 2, 7])))))"
proof -
  have h1: "files \<lparr>files = [''profile.png'' \<mapsto> [4, 4, 0, 7], ''profile-200.png'' \<mapsto> [1]],
      stdout = [''before'']\<rparr> ''profile.png'' = Some [4, 4, 0, 7]"
    by simp
  have h2: "files \<lparr>files = [''assets/svg/pathway.gif'' \<mapsto> [4, 4, 2, 7]], stdout = [''before'']\<rparr>
      ''assets/svg/pathway.gif'' = Some [4, 4, 2, 7]"
    by simp
  show ?thesis by (rule runs_depend_on_the_input_only [OF h1 h2])
qed

section \<open>Claim about frontmatter extraction\<close>

text \<open>
  C2: for a document made of a frontmatter block of valid entries followed by any
  body text, extraction returns a mapping whose keys are exactly the keys of the
  block, and the body text unchanged.
\<close>

theorem frontmatter_round_trip:
  assumes "\<forall>e\<in>set entries. valid_entry e"
  shows "\<exists>m. extract_frontmatter json (frontmatter_block entries @ body) = (Some m, body)
           \<and> dom m = fst ` set entries"
proof -
  have nl: "\<forall>e\<in>set entries. newline \<notin> set (entry_line e)"
    using assms by (auto simp: valid_entry_def entry_line_def newline_def)
  have colon: "\<forall>e\<in>set entries. CHR '':'' \<notin> set (fst e)"
    using assms by (auto simp: valid_entry_def)
  have keys: "(\<lambda>e. trim (fst e)) ` set entries = fst ` set entries"
    using assms by (auto simp: valid_entry_def image_iff)
  have d: "newline \<notin> set ''---''" by (simp add: newline_def)
  have "frontmatter_block entries @ body
      = ''---'' @ newline # (concat (map (\<lambda>e. entry_line e @ [newline]) entries) @ (''---'' @ newline # body))"
    by (simp add: frontmatter_block_def)
  then have sp: "split_on newline (frontmatter_block entries @ body)
      = ''---'' # map entry_line entries @ ''---'' # split_on newline body"
    using split_on_line [OF d] split_block [OF nl] by simp
  have nd: "\<forall>l\<in>set (map entry_line entries). l \<noteq> ''---''"
    by (simp add: entry_line_not_delim)
  note tw = takeWhile_until [OF nd] and dw = dropWhile_until [OF nd]
  show ?thesis
    by (simp add: extract_frontmatter_def sp tw dw dom_parse_block [OF colon] keys)
qed

theorem frontmatter_round_trip_witness:
  "\<exists>m. extract_frontmatter (\<lambda>s. None)
         (frontmatter_block [(''title'', '' Hello''), (''tags'', '' [a, b]'')] @ ''# Hello'')
        = (Some m, ''# Hello'')
       \<and> dom m = {''title'', ''tags''}"
proof -
  have v: "\<forall>e\<in>set [(''title'', '' Hello''), (''tags'', '' [a, b]'')]. valid_entry e"
    by (simp add: valid_entry_def trim_def is_space_def newline_def)
  from frontmatter_round_trip [OF v] show ?thesis by simp
qed

end
